theory Spec2Isabelle
  imports Complex_Main "HOL-Library.Multiset" "HOL-Library.Log_Nat"
begin

section \<open>Task model (src/types.ts)\<close>

text \<open>
  JavaScript strings are modelled as \<open>string\<close>; a character stands for one code unit.
  Text outside ASCII (the emoji of the messages) is written as its UTF-8 bytes.
  Timestamps are the strings \<open>Date.prototype.toISOString\<close> returns.
\<close>

datatype Priority = low | medium | high

datatype Status = pending | in_progress | completed

record Task =
  task_id :: string
  title :: string
  description :: "string option"
  priority :: Priority
  category :: "string option"
  dueDate :: "string option"
  status :: Status
  createdAt :: string
  completedAt :: "string option"

record TaskStorage =
  tasks :: "Task list"
  lastUpdated :: string

text \<open>
  An optional string field in a condition (\<open>if (task.description)\<close>, \<open>!task.completedAt\<close>,
  \<open>a.dueDate || "9999-99-99"\<close>): \<open>undefined\<close> and the empty string are both falsy.
\<close>

definition truthy :: "string option \<Rightarrow> bool" where
  "truthy v = (case v of None \<Rightarrow> False | Some s \<Rightarrow> s \<noteq> [])"

text \<open>\<open>v || d\<close> for an optional string \<open>v\<close> and a default \<open>d\<close>.\<close>

definition orElse :: "string option \<Rightarrow> string \<Rightarrow> string" where
  "orElse v d = (case v of None \<Rightarrow> d | Some s \<Rightarrow> if s = [] then d else s)"

text \<open>\<open>String.prototype.startsWith\<close>: \<open>startsWith s p\<close> is \<open>s.startsWith(p)\<close>.\<close>

fun startsWith :: "string \<Rightarrow> string \<Rightarrow> bool" where
  "startsWith s [] = True"
| "startsWith [] (c # p) = False"
| "startsWith (d # s) (c # p) = (d = c \<and> startsWith s p)"

text \<open>\<open>Array.prototype.findIndex\<close>: the first index whose element satisfies the predicate, or \<open>-1\<close>.\<close>

fun findIndexFrom :: "int \<Rightarrow> ('a \<Rightarrow> bool) \<Rightarrow> 'a list \<Rightarrow> int" where
  "findIndexFrom k P [] = -1"
| "findIndexFrom k P (x # xs) = (if P x then k else findIndexFrom (k + 1) P xs)"

definition findIndex :: "('a \<Rightarrow> bool) \<Rightarrow> 'a list \<Rightarrow> int" where
  "findIndex P xs = findIndexFrom 0 P xs"

text \<open>
  \<open>Array.prototype.find\<close> returns a reference to the first matching element; assigning to
  its fields changes that element of the array. \<open>modifyFirst P f xs\<close> is the array after
  the element \<open>find\<close> returned has been changed by \<open>f\<close>.
\<close>

fun modifyFirst :: "('a \<Rightarrow> bool) \<Rightarrow> ('a \<Rightarrow> 'a) \<Rightarrow> 'a list \<Rightarrow> 'a list" where
  "modifyFirst P f [] = []"
| "modifyFirst P f (x # xs) = (if P x then f x # xs else x # modifyFirst P f xs)"

text \<open>\<open>Array.prototype.splice(i, 1)\<close> for an index inside the array.\<close>

definition splice1 :: "nat \<Rightarrow> 'a list \<Rightarrow> 'a list" where
  "splice1 i xs = take i xs @ drop (Suc i) xs"

text \<open>A non-negative integer in a template literal: its decimal digits.\<close>

definition digit :: "nat \<Rightarrow> char" where
  "digit n = ''0123456789'' ! n"

function showNat :: "nat \<Rightarrow> string" where
  "showNat n = (if n < 10 then [digit n] else showNat (n div 10) @ [digit (n mod 10)])"
  by pat_completeness auto
termination
  by (relation "measure id") auto

declare showNat.simps [simp del]

section \<open>The JavaScript runtime\<close>

text \<open>
  Library functions whose results the engine and its locale data decide are parameters of
  the model; every theorem holds for any runtime.
  \<^item> \<open>toISOString rt ms\<close>: \<open>new Date(ms).toISOString()\<close> for a clock reading \<open>ms\<close>
    (milliseconds since the epoch);
  \<^item> \<open>toLocaleString rt s\<close>: \<open>new Date(s).toLocaleString()\<close>;
  \<^item> \<open>localeCompare rt a b\<close>: \<open>a.localeCompare(b)\<close>;
  \<^item> \<open>toLowerCase rt s\<close>: \<open>s.toLowerCase()\<close>.
  All clock readings within one call are modelled as the same instant \<open>now\<close>.
\<close>

record runtime =
  toISOString :: "int \<Rightarrow> string"
  toLocaleString :: "string \<Rightarrow> string"
  localeCompare :: "string \<Rightarrow> string \<Rightarrow> int"
  toLowerCase :: "string \<Rightarrow> string"

section \<open>Numbers\<close>

text \<open>
  A Number is an IEEE 754 double; a finite one is modelled by the rational it denotes.
  \<open>toDouble x\<close> is the double nearest to a rational \<open>x \<ge> 0\<close>, ties going to the even
  significand: with \<open>2 ^ e \<le> x < 2 ^ (e + 1)\<close> the doubles around \<open>x\<close> are the multiples of
  \<open>2 ^ (e - 52)\<close>. The model covers the normal range \<open>2 ^ -1022 \<le> x < 2 ^ 1024\<close> and zero;
  the numbers of \<open>getTaskStats\<close> lie between \<open>2 ^ -32\<close> and \<open>100\<close>, an array having fewer
  than \<open>2 ^ 32\<close> elements. The operators \<open>/\<close> and \<open>*\<close> return the double nearest to the
  exact quotient and product.
\<close>

definition binade :: "rat \<Rightarrow> int" where
  "binade x = (let (a, b) = quotient_of x; k = bitlen a - bitlen b
               in if 2 powi k \<le> x then k else k - 1)"

definition roundTiesToEven :: "rat \<Rightarrow> int" where
  "roundTiesToEven y =
     (let f = \<lfloor>y\<rfloor>; r = y - of_int f
      in if r < 1 / 2 then f else if 1 / 2 < r then f + 1 else if even f then f else f + 1)"

definition toDouble :: "rat \<Rightarrow> rat" where
  "toDouble x =
     (if x = 0 then 0
      else (let ulp = 2 powi (binade x - 52) in of_int (roundTiesToEven (x / ulp)) * ulp))"

definition numDivide :: "rat \<Rightarrow> rat \<Rightarrow> rat" where
  "numDivide a b = toDouble (a / b)"

definition numTimes :: "rat \<Rightarrow> rat \<Rightarrow> rat" where
  "numTimes a b = toDouble (a * b)"

text \<open>
  \<open>Number.prototype.toFixed(f)\<close> for \<open>0 \<le> x < 10 ^ 21\<close>: \<open>n\<close> is the integer for which
  \<open>n / 10 ^ f - x\<close> is closest to zero, the larger one of two; its decimal digits, filled
  with zeros on the left to \<open>f + 1\<close> digits, get a point before the last \<open>f\<close> of them.
\<close>

definition toFixed :: "nat \<Rightarrow> rat \<Rightarrow> string" where
  "toFixed f x =
     (let n = nat \<lfloor>x * 10 ^ f + 1 / 2\<rfloor>;
          m = showNat n;
          m = replicate (f + 1 - length m) (CHR ''0'') @ m
      in if f = 0 then m else take (length m - f) m @ ''.'' @ drop (length m - f) m)"

section \<open>The persistent state\<close>

text \<open>
  The document at \<open>TASKS_FILE\<close> is absent, present but not readable as JSON (with the
  message of the error \<open>readJson\<close> throws), or holds a stored collection. A document that
  parses but does not have the shape of \<open>TaskStorage\<close> is outside the model (\<open>loadTasks\<close>
  casts it unchecked). The table \<open>tasks\<close> of the database is the list of its rows in the
  order \<open>SELECT *\<close> returns them (order of insertion); a \<open>NULL\<close> column is \<open>None\<close>.
  \<open>stderr\<close> collects what \<open>console.error\<close> prints. Writes are modelled as succeeding.
\<close>

datatype Document = Absent | Unreadable string | Stored TaskStorage

record World =
  jsonFile :: Document
  sqlite :: "Task list"
  stderr :: "string list"

text \<open>What a rejected promise carries: a \<open>ZodError\<close> with its issues, or another error.\<close>

datatype ZodIssue =
    invalid_type string
  | too_small string string
  | invalid_string string string
  | invalid_enum_value string string

datatype Thrown = ZodError "ZodIssue list" | Error string

section \<open>Snapshot-file backend (src/storage.ts)\<close>

definition pathExists :: "Document \<Rightarrow> bool" where
  "pathExists d = (d \<noteq> Absent)"

definition readJson :: "Document \<Rightarrow> string + TaskStorage" where
  "readJson d = (case d of
       Absent \<Rightarrow> Inl ''ENOENT: no such file or directory''
     | Unreadable e \<Rightarrow> Inl e
     | Stored s \<Rightarrow> Inr s)"

text \<open>
  \<open>loadTasks\<close>: the \<open>try\<close> block returns the document (\<open>Inr (Some data)\<close>), falls through when
  the file is absent (\<open>Inr None\<close>) or throws (\<open>Inl error\<close>); the \<open>catch\<close> clause logs and
  falls through to the empty storage. The result is \<open>Inl\<close> when the promise is rejected.
\<close>

definition loadTasks :: "runtime \<Rightarrow> int \<Rightarrow> World \<Rightarrow> (Thrown + TaskStorage) \<times> World" where
  "loadTasks rt now w =
     (let empty = \<lparr>tasks = [], lastUpdated = toISOString rt now\<rparr> in
      case (if pathExists (jsonFile w)
            then map_sum id Some (readJson (jsonFile w))
            else Inr None) of
        Inr (Some data) \<Rightarrow> (Inr data, w)
      | Inr None \<Rightarrow> (Inr empty, w)
      | Inl error \<Rightarrow>
          (Inr empty, w\<lparr>stderr := stderr w @ [''Error loading tasks: '' @ error]\<rparr>))"

definition saveTasks :: "runtime \<Rightarrow> int \<Rightarrow> TaskStorage \<Rightarrow> World \<Rightarrow> World" where
  "saveTasks rt now storage w =
     w\<lparr>jsonFile := Stored (storage\<lparr>lastUpdated := toISOString rt now\<rparr>)\<rparr>"

definition emoji_check :: string where
  "emoji_check = [CHR 0xE2, CHR 0x9C, CHR 0x85]"

definition emoji_hourglass :: string where
  "emoji_hourglass = [CHR 0xE2, CHR 0x8F, CHR 0xB3]"

definition emoji_clipboard :: string where
  "emoji_clipboard = [CHR 0xF0, CHR 0x9F, CHR 0x93, CHR 0x8B]"

definition emoji_red :: string where
  "emoji_red = [CHR 0xF0, CHR 0x9F, CHR 0x94, CHR 0xB4]"

definition emoji_yellow :: string where
  "emoji_yellow = [CHR 0xF0, CHR 0x9F, CHR 0x9F, CHR 0xA1]"

definition emoji_green :: string where
  "emoji_green = [CHR 0xF0, CHR 0x9F, CHR 0x9F, CHR 0xA2]"

fun showPriority :: "Priority \<Rightarrow> string" where
  "showPriority low = ''low''"
| "showPriority medium = ''medium''"
| "showPriority high = ''high''"

fun showStatus :: "Status \<Rightarrow> string" where
  "showStatus pending = ''pending''"
| "showStatus in_progress = ''in_progress''"
| "showStatus completed = ''completed''"

fun priorityEmoji :: "Priority \<Rightarrow> string" where
  "priorityEmoji high = emoji_red"
| "priorityEmoji medium = emoji_yellow"
| "priorityEmoji low = emoji_green"

definition formatTask :: "runtime \<Rightarrow> Task \<Rightarrow> string" where
  "formatTask rt task =
     (let statusEmoji =
            (if status task = completed then emoji_check
             else if status task = in_progress then emoji_hourglass
             else emoji_clipboard);
          result = statusEmoji @ '' Task #'' @ take 8 (task_id task) @ '': '' @ title task @ [CHR 0x0A];
          result = result @ ''   '' @ priorityEmoji (priority task) @ '' Priority: ''
                     @ showPriority (priority task) @ [CHR 0x0A];
          result = (if truthy (description task)
                    then result @ ''   Description: '' @ orElse (description task) [] @ [CHR 0x0A]
                    else result);
          result = (if truthy (category task)
                    then result @ ''   Category: '' @ orElse (category task) [] @ [CHR 0x0A]
                    else result);
          result = (if truthy (dueDate task)
                    then result @ ''   Due: '' @ orElse (dueDate task) [] @ [CHR 0x0A]
                    else result);
          result = result @ ''   Status: '' @ showStatus (status task) @ [CHR 0x0A];
          result = result @ ''   Created: '' @ toLocaleString rt (createdAt task) @ [CHR 0x0A];
          result = (if truthy (completedAt task)
                    then result @ ''   Completed: ''
                           @ toLocaleString rt (orElse (completedAt task) []) @ [CHR 0x0A]
                    else result)
      in result)"

section \<open>Argument schemas (src/types.ts)\<close>

text \<open>
  The arguments of a call are an object read key by key; a key is absent (\<open>None\<close>), holds a
  string, or holds a value that is not a string. A schema collects the issues of all its
  keys, in the order the keys are declared, and \<open>parse\<close> throws a \<open>ZodError\<close> when there is
  one. An issue names its key; \<open>too_small\<close> and \<open>invalid_string\<close> carry the message given in
  the schema, \<open>invalid_enum_value\<close> the value received.
\<close>

datatype jsvalue = Str string | NotStr

type_synonym Args = "string \<rightharpoonup> jsvalue"

type_synonym 'a parsed = "ZodIssue list + 'a"

definition andAlso :: "'a parsed \<Rightarrow> 'b parsed \<Rightarrow> ('a \<times> 'b) parsed" where
  "andAlso p q = (case p of
       Inr a \<Rightarrow> (case q of Inr b \<Rightarrow> Inr (a, b) | Inl f \<Rightarrow> Inl f)
     | Inl e \<Rightarrow> (case q of Inr b \<Rightarrow> Inl e | Inl f \<Rightarrow> Inl (e @ f)))"

definition zString :: "string \<Rightarrow> jsvalue option \<Rightarrow> string parsed" where
  "zString key v = (case v of Some (Str s) \<Rightarrow> Inr s | _ \<Rightarrow> Inl [invalid_type key])"

definition zStringMin :: "nat \<Rightarrow> string \<Rightarrow> string \<Rightarrow> jsvalue option \<Rightarrow> string parsed" where
  "zStringMin n message key v = (case v of
       Some (Str s) \<Rightarrow> if length s < n then Inl [too_small key message] else Inr s
     | _ \<Rightarrow> Inl [invalid_type key])"

definition isDigit :: "char \<Rightarrow> bool" where
  "isDigit c = (c \<in> set ''0123456789'')"

text \<open>The regular expression \<open>/^\d{4}-\d{2}-\d{2}$/\<close>.\<close>

definition matchesDate :: "string \<Rightarrow> bool" where
  "matchesDate s =
     (length s = 10 \<and> list_all isDigit (take 4 s) \<and> s ! 4 = CHR ''-''
      \<and> list_all isDigit (take 2 (drop 5 s)) \<and> s ! 7 = CHR ''-''
      \<and> list_all isDigit (drop 8 s))"

definition zStringDate :: "string \<Rightarrow> string \<Rightarrow> jsvalue option \<Rightarrow> string parsed" where
  "zStringDate message key v = (case v of
       Some (Str s) \<Rightarrow> if matchesDate s then Inr s else Inl [invalid_string key message]
     | _ \<Rightarrow> Inl [invalid_type key])"

definition zEnum :: "(string \<times> 'a) list \<Rightarrow> string \<Rightarrow> jsvalue option \<Rightarrow> 'a parsed" where
  "zEnum options key v = (case v of
       Some (Str s) \<Rightarrow>
         (case map_of options s of Some x \<Rightarrow> Inr x | None \<Rightarrow> Inl [invalid_enum_value key s])
     | _ \<Rightarrow> Inl [invalid_type key])"

definition zOptional ::
  "(string \<Rightarrow> jsvalue option \<Rightarrow> 'a parsed) \<Rightarrow> string \<Rightarrow> jsvalue option \<Rightarrow> 'a option parsed" where
  "zOptional p key v = (case v of None \<Rightarrow> Inr None | Some x \<Rightarrow> map_sum id Some (p key (Some x)))"

definition zDefault ::
  "'a \<Rightarrow> (string \<Rightarrow> jsvalue option \<Rightarrow> 'a parsed) \<Rightarrow> string \<Rightarrow> jsvalue option \<Rightarrow> 'a parsed" where
  "zDefault d p key v = (case v of None \<Rightarrow> Inr d | Some x \<Rightarrow> p key (Some x))"

definition priorities :: "(string \<times> Priority) list" where
  "priorities = [(''low'', low), (''medium'', medium), (''high'', high)]"

definition statuses :: "(string \<times> Status) list" where
  "statuses = [(''pending'', pending), (''in_progress'', in_progress), (''completed'', completed)]"

text \<open>A filter of \<open>list\<close>: one value of the enumeration, or \<open>"all"\<close>.\<close>

datatype 'a selection = Only 'a | All

record CreateTaskArgs =
  create_title :: string
  create_description :: "string option"
  create_priority :: Priority
  create_category :: "string option"
  create_dueDate :: "string option"

definition CreateTaskSchema :: "Args \<Rightarrow> CreateTaskArgs parsed" where
  "CreateTaskSchema args =
     map_sum id
       (\<lambda>(t, d, p, c, due).
          \<lparr>create_title = t, create_description = d, create_priority = p,
           create_category = c, create_dueDate = due\<rparr>)
       (andAlso (zStringMin 1 ''Title is required'' ''title'' (args ''title''))
       (andAlso (zOptional zString ''description'' (args ''description''))
       (andAlso (zDefault medium (zEnum priorities) ''priority'' (args ''priority''))
       (andAlso (zOptional zString ''category'' (args ''category''))
                (zOptional (zStringDate ''Date must be YYYY-MM-DD'') ''dueDate'' (args ''dueDate''))))))"

record ListTasksArgs =
  list_status :: "Status selection"
  list_priority :: "Priority selection"
  list_category :: "string option"

definition ListTasksSchema :: "Args \<Rightarrow> ListTasksArgs parsed" where
  "ListTasksSchema args =
     map_sum id
       (\<lambda>(s, p, c). \<lparr>list_status = s, list_priority = p, list_category = c\<rparr>)
       (andAlso (zDefault All (zEnum (map (\<lambda>(n, x). (n, Only x)) statuses @ [(''all'', All)]))
                   ''status'' (args ''status''))
       (andAlso (zDefault All (zEnum (map (\<lambda>(n, x). (n, Only x)) priorities @ [(''all'', All)]))
                   ''priority'' (args ''priority''))
                (zOptional zString ''category'' (args ''category''))))"

record UpdateTaskArgs =
  update_taskId :: string
  update_title :: "string option"
  update_description :: "string option"
  update_priority :: "Priority option"
  update_category :: "string option"
  update_dueDate :: "string option"
  update_status :: "Status option"

definition UpdateTaskSchema :: "Args \<Rightarrow> UpdateTaskArgs parsed" where
  "UpdateTaskSchema args =
     map_sum id
       (\<lambda>(i, t, d, p, c, due, s).
          \<lparr>update_taskId = i, update_title = t, update_description = d, update_priority = p,
           update_category = c, update_dueDate = due, update_status = s\<rparr>)
       (andAlso (zStringMin 8 ''Task ID must be at least 8 characters'' ''taskId'' (args ''taskId''))
       (andAlso (zOptional zString ''title'' (args ''title''))
       (andAlso (zOptional zString ''description'' (args ''description''))
       (andAlso (zOptional (zEnum priorities) ''priority'' (args ''priority''))
       (andAlso (zOptional zString ''category'' (args ''category''))
       (andAlso (zOptional (zStringDate ''Date must be YYYY-MM-DD'') ''dueDate'' (args ''dueDate''))
                (zOptional (zEnum statuses) ''status'' (args ''status''))))))))"

definition TaskIdSchema :: "Args \<Rightarrow> string parsed" where
  "TaskIdSchema args =
     zStringMin 8 ''Task ID must be at least 8 characters'' ''taskId'' (args ''taskId'')"

definition SearchSchema :: "Args \<Rightarrow> string parsed" where
  "SearchSchema args = zStringMin 1 ''Search query is required'' ''query'' (args ''query'')"

section \<open>Operations (src/tools.ts)\<close>

text \<open>
  \<open>tools.ts\<close> imports \<open>loadTasks\<close>, \<open>saveTasks\<close> and \<open>formatTask\<close> from \<open>./storage.js\<close>, the
  snapshot-file backend above. An operation takes the runtime, the clock reading, its
  arguments and the state; it returns the text of its response (\<open>Inr\<close>) or what it throws
  (\<open>Inl\<close>), and the state it leaves.
\<close>

definition LF :: char where
  "LF = CHR 0x0A"

definition emoji_cross :: string where
  "emoji_cross = [CHR 0xE2, CHR 0x9D, CHR 0x8C]"

definition emoji_wastebasket :: string where
  "emoji_wastebasket = [CHR 0xF0, CHR 0x9F, CHR 0x97, CHR 0x91, CHR 0xEF, CHR 0xB8, CHR 0x8F]"

definition emoji_magnifier :: string where
  "emoji_magnifier = [CHR 0xF0, CHR 0x9F, CHR 0x94, CHR 0x8D]"

definition emoji_bars :: string where
  "emoji_bars = [CHR 0xF0, CHR 0x9F, CHR 0x93, CHR 0x8A]"

definition emoji_chart :: string where
  "emoji_chart = [CHR 0xF0, CHR 0x9F, CHR 0x93, CHR 0x88]"

definition emoji_folder :: string where
  "emoji_folder = [CHR 0xF0, CHR 0x9F, CHR 0x93, CHR 0x81]"

definition emoji_warning :: string where
  "emoji_warning = [CHR 0xE2, CHR 0x9A, CHR 0xA0, CHR 0xEF, CHR 0xB8, CHR 0x8F]"

definition emoji_calendar :: string where
  "emoji_calendar = [CHR 0xF0, CHR 0x9F, CHR 0x93, CHR 0x85]"

definition emoji_broom :: string where
  "emoji_broom = [CHR 0xF0, CHR 0x9F, CHR 0xA7, CHR 0xB9]"

definition notFound :: "string \<Rightarrow> string" where
  "notFound taskId = emoji_cross @ '' Task with ID '' @ taskId @ '' not found.''"

subsection \<open>createTask\<close>

text \<open>\<open>uuid\<close> is the value \<open>uuidv4()\<close> returns in this call.\<close>

definition createTask ::
  "runtime \<Rightarrow> int \<Rightarrow> string \<Rightarrow> Args \<Rightarrow> World \<Rightarrow> (Thrown + string) \<times> World" where
  "createTask rt now uuid args w =
     (case CreateTaskSchema args of
        Inl issues \<Rightarrow> (Inl (ZodError issues), w)
      | Inr validated \<Rightarrow>
          (case loadTasks rt now w of
             (Inl e, w1) \<Rightarrow> (Inl e, w1)
           | (Inr storage, w1) \<Rightarrow>
               (let newTask =
                      \<lparr>task_id = uuid,
                       title = create_title validated,
                       description = create_description validated,
                       priority = create_priority validated,
                       category = create_category validated,
                       dueDate = create_dueDate validated,
                       status = pending,
                       createdAt = toISOString rt now,
                       completedAt = None\<rparr>;
                    storage = storage\<lparr>tasks := tasks storage @ [newTask]\<rparr>;
                    w2 = saveTasks rt now storage w1
                in (Inr (emoji_check @ '' Task created successfully!'' @ [LF, LF]
                           @ formatTask rt newTask), w2))))"

subsection \<open>listTasks\<close>

fun priorityOrder :: "Priority \<Rightarrow> int" where
  "priorityOrder high = 0"
| "priorityOrder medium = 1"
| "priorityOrder low = 2"

definition compareTasks :: "runtime \<Rightarrow> Task \<Rightarrow> Task \<Rightarrow> int" where
  "compareTasks rt a b =
     (let priorityDiff = priorityOrder (priority a) - priorityOrder (priority b) in
      if priorityDiff \<noteq> 0 then priorityDiff
      else (let aDate = orElse (dueDate a) ''9999-99-99'';
                bDate = orElse (dueDate b) ''9999-99-99''
            in localeCompare rt aDate bDate))"

text \<open>
  \<open>Array.prototype.sort\<close> with a comparison function is a stable sort: elements the
  function puts in order are ordered by it, elements it compares as equal keep their
  relative order. It is modelled as insertion sort from the right.
\<close>

fun insertBy :: "('a \<Rightarrow> 'a \<Rightarrow> int) \<Rightarrow> 'a \<Rightarrow> 'a list \<Rightarrow> 'a list" where
  "insertBy cmp x [] = [x]"
| "insertBy cmp x (y # ys) = (if cmp x y \<le> 0 then x # y # ys else y # insertBy cmp x ys)"

fun sortBy :: "('a \<Rightarrow> 'a \<Rightarrow> int) \<Rightarrow> 'a list \<Rightarrow> 'a list" where
  "sortBy cmp [] = []"
| "sortBy cmp (x # xs) = insertBy cmp x (sortBy cmp xs)"

definition countStatus :: "Status \<Rightarrow> Task list \<Rightarrow> nat" where
  "countStatus s ts = length (filter (\<lambda>t. status t = s) ts)"

definition countPriority :: "Priority \<Rightarrow> Task list \<Rightarrow> nat" where
  "countPriority p ts = length (filter (\<lambda>t. priority t = p) ts)"

text \<open>The filters of \<open>listTasks\<close> (lines 61 to 72), applied to a copy of the collection.\<close>

definition applyFilters :: "runtime \<Rightarrow> ListTasksArgs \<Rightarrow> Task list \<Rightarrow> Task list" where
  "applyFilters rt validated ts =
     (let ts = (case list_status validated of
                  All \<Rightarrow> ts
                | Only s \<Rightarrow> filter (\<lambda>t. status t = s) ts);
          ts = (case list_priority validated of
                  All \<Rightarrow> ts
                | Only p \<Rightarrow> filter (\<lambda>t. priority t = p) ts);
          ts = (if truthy (list_category validated)
                then filter (\<lambda>t. map_option (toLowerCase rt) (category t)
                                 = map_option (toLowerCase rt) (list_category validated)) ts
                else ts)
      in ts)"

text \<open>
  Lines 101 to 114: the text for the sorted list \<open>ts\<close>, with the summary counted over the
  whole collection \<open>all\<close>.
\<close>

definition formatListing :: "runtime \<Rightarrow> Task list \<Rightarrow> Task list \<Rightarrow> string" where
  "formatListing rt ts all =
     (let result = emoji_clipboard @ '' Found '' @ showNat (length ts) @ '' task(s):'' @ [LF, LF];
          result = result @ concat (map (\<lambda>task. formatTask rt task @ [LF]) ts);
          pendingCount = countStatus pending all;
          inProgress = countStatus in_progress all;
          completedCount = countStatus completed all;
          result = result @ [LF] @ emoji_bars @ '' Summary: '' @ showNat pendingCount
                     @ '' pending | '' @ showNat inProgress
                     @ '' in progress | '' @ showNat completedCount @ '' completed''
      in result)"

definition listTasks :: "runtime \<Rightarrow> int \<Rightarrow> Args \<Rightarrow> World \<Rightarrow> (Thrown + string) \<times> World" where
  "listTasks rt now args w =
     (case ListTasksSchema args of
        Inl issues \<Rightarrow> (Inl (ZodError issues), w)
      | Inr validated \<Rightarrow>
          (case loadTasks rt now w of
             (Inl e, w1) \<Rightarrow> (Inl e, w1)
           | (Inr storage, w1) \<Rightarrow>
               (let ts = applyFilters rt validated (tasks storage) in
                if length ts = 0 then (Inr ''No tasks found matching the criteria.'', w1)
                else
                  (let ts = sortBy (compareTasks rt) ts
                   in (Inr (formatListing rt ts (tasks storage)), w1)))))"

subsection \<open>updateTask\<close>

text \<open>Lines 154 to 177: the fields present in the request are assigned to the task found.\<close>

definition applyUpdate :: "runtime \<Rightarrow> int \<Rightarrow> UpdateTaskArgs \<Rightarrow> Task \<Rightarrow> Task" where
  "applyUpdate rt now validated task =
     (let task = (case update_title validated of None \<Rightarrow> task | Some v \<Rightarrow> task\<lparr>title := v\<rparr>);
          task = (case update_description validated of
                    None \<Rightarrow> task | Some v \<Rightarrow> task\<lparr>description := Some v\<rparr>);
          task = (case update_priority validated of None \<Rightarrow> task | Some v \<Rightarrow> task\<lparr>priority := v\<rparr>);
          task = (case update_category validated of
                    None \<Rightarrow> task | Some v \<Rightarrow> task\<lparr>category := Some v\<rparr>);
          task = (case update_dueDate validated of
                    None \<Rightarrow> task | Some v \<Rightarrow> task\<lparr>dueDate := Some v\<rparr>);
          task = (case update_status validated of
                    None \<Rightarrow> task
                  | Some v \<Rightarrow>
                      (let task = task\<lparr>status := v\<rparr> in
                       if v = completed \<and> \<not> truthy (completedAt task)
                       then task\<lparr>completedAt := Some (toISOString rt now)\<rparr>
                       else if v \<noteq> completed then task\<lparr>completedAt := None\<rparr>
                       else task))
      in task)"

definition updateTask :: "runtime \<Rightarrow> int \<Rightarrow> Args \<Rightarrow> World \<Rightarrow> (Thrown + string) \<times> World" where
  "updateTask rt now args w =
     (case UpdateTaskSchema args of
        Inl issues \<Rightarrow> (Inl (ZodError issues), w)
      | Inr validated \<Rightarrow>
          (case loadTasks rt now w of
             (Inl e, w1) \<Rightarrow> (Inl e, w1)
           | (Inr storage, w1) \<Rightarrow>
               (let taskIndex =
                      findIndex (\<lambda>t. startsWith (task_id t) (update_taskId validated)) (tasks storage)
                in
                if taskIndex = -1 then (Inr (notFound (update_taskId validated)), w1)
                else
                  (let task = applyUpdate rt now validated (tasks storage ! nat taskIndex);
                       storage = storage\<lparr>tasks := (tasks storage)[nat taskIndex := task]\<rparr>;
                       w2 = saveTasks rt now storage w1
                   in (Inr (emoji_check @ '' Task updated successfully!'' @ [LF, LF]
                              @ formatTask rt task), w2)))))"

subsection \<open>deleteTask\<close>

definition deleteTask :: "runtime \<Rightarrow> int \<Rightarrow> Args \<Rightarrow> World \<Rightarrow> (Thrown + string) \<times> World" where
  "deleteTask rt now args w =
     (case TaskIdSchema args of
        Inl issues \<Rightarrow> (Inl (ZodError issues), w)
      | Inr taskId \<Rightarrow>
          (case loadTasks rt now w of
             (Inl e, w1) \<Rightarrow> (Inl e, w1)
           | (Inr storage, w1) \<Rightarrow>
               (let taskIndex = findIndex (\<lambda>t. startsWith (task_id t) taskId) (tasks storage) in
                if taskIndex = -1 then (Inr (notFound taskId), w1)
                else
                  (let deletedTask = tasks storage ! nat taskIndex;
                       storage = storage\<lparr>tasks := splice1 (nat taskIndex) (tasks storage)\<rparr>;
                       w2 = saveTasks rt now storage w1
                   in (Inr (emoji_wastebasket @ '' Task '' @ [CHR 0x22] @ title deletedTask
                              @ [CHR 0x22] @ '' deleted successfully.''), w2)))))"

subsection \<open>completeTask\<close>

definition completeTask :: "runtime \<Rightarrow> int \<Rightarrow> Args \<Rightarrow> World \<Rightarrow> (Thrown + string) \<times> World" where
  "completeTask rt now args w =
     (case TaskIdSchema args of
        Inl issues \<Rightarrow> (Inl (ZodError issues), w)
      | Inr taskId \<Rightarrow>
          (case loadTasks rt now w of
             (Inl e, w1) \<Rightarrow> (Inl e, w1)
           | (Inr storage, w1) \<Rightarrow>
               (case find (\<lambda>t. startsWith (task_id t) taskId) (tasks storage) of
                  None \<Rightarrow> (Inr (notFound taskId), w1)
                | Some found \<Rightarrow>
                    (let task = found\<lparr>status := completed,
                                      completedAt := Some (toISOString rt now)\<rparr>;
                         storage = storage\<lparr>tasks :=
                           modifyFirst (\<lambda>t. startsWith (task_id t) taskId) (\<lambda>_. task)
                             (tasks storage)\<rparr>;
                         w2 = saveTasks rt now storage w1
                     in (Inr (emoji_check @ '' Task completed!'' @ [LF, LF]
                                @ formatTask rt task), w2)))))"

subsection \<open>searchTasks\<close>

text \<open>\<open>String.prototype.includes\<close>: \<open>includesStr s q\<close> is \<open>s.includes(q)\<close>.\<close>

fun includesStr :: "string \<Rightarrow> string \<Rightarrow> bool" where
  "includesStr [] q = (q = [])"
| "includesStr (c # s) q = (startsWith (c # s) q \<or> includesStr s q)"

definition searchTasks :: "runtime \<Rightarrow> int \<Rightarrow> Args \<Rightarrow> World \<Rightarrow> (Thrown + string) \<times> World" where
  "searchTasks rt now args w =
     (case SearchSchema args of
        Inl issues \<Rightarrow> (Inl (ZodError issues), w)
      | Inr validated_query \<Rightarrow>
          (case loadTasks rt now w of
             (Inl e, w1) \<Rightarrow> (Inl e, w1)
           | (Inr storage, w1) \<Rightarrow>
               (let query = toLowerCase rt validated_query;
                    matchingTasks =
                      filter (\<lambda>t. includesStr (toLowerCase rt (title t)) query
                                 \<or> (case description t of
                                       None \<Rightarrow> False
                                     | Some d \<Rightarrow> d \<noteq> [] \<and> includesStr (toLowerCase rt d) query))
                        (tasks storage)
                in
                if length matchingTasks = 0
                then (Inr (''No tasks found matching '' @ [CHR 0x22] @ validated_query
                             @ [CHR 0x22] @ ''.''), w1)
                else
                  (let result = emoji_magnifier @ '' Found '' @ showNat (length matchingTasks)
                                  @ '' task(s) matching '' @ [CHR 0x22] @ validated_query
                                  @ [CHR 0x22] @ '':'' @ [LF, LF];
                       result = result
                                  @ concat (map (\<lambda>task. formatTask rt task @ [LF]) matchingTasks)
                   in (Inr result, w1)))))"

subsection \<open>getTaskStats\<close>

text \<open>
  The relational operators on strings compare code units, position by position:
  \<open>strLess a b\<close> is \<open>a < b\<close>, \<open>strLeq a b\<close> is \<open>a <= b\<close>, \<open>strGeq a b\<close> is \<open>a >= b\<close>.
\<close>

fun strLess :: "string \<Rightarrow> string \<Rightarrow> bool" where
  "strLess [] [] = False"
| "strLess [] (d # b) = True"
| "strLess (c # a) [] = False"
| "strLess (c # a) (d # b) = (if c = d then strLess a b else (of_char c :: nat) < of_char d)"

definition strLeq :: "string \<Rightarrow> string \<Rightarrow> bool" where
  "strLeq a b = (\<not> strLess b a)"

definition strGeq :: "string \<Rightarrow> string \<Rightarrow> bool" where
  "strGeq a b = (\<not> strLess a b)"

text \<open>
  A \<open>Map<string, number>\<close> keeps its keys in the order of their first insertion; it is an
  association list with distinct keys.
\<close>

definition mapGet :: "(string \<times> nat) list \<Rightarrow> string \<Rightarrow> nat option" where
  "mapGet m k = map_of m k"

definition mapSet :: "(string \<times> nat) list \<Rightarrow> string \<Rightarrow> nat \<Rightarrow> (string \<times> nat) list" where
  "mapSet m k v =
     (if k \<in> fst ` set m then map (\<lambda>(k', v'). if k' = k then (k', v) else (k', v')) m
      else m @ [(k, v)])"

text \<open>The loop of lines 349 to 353, from the left.\<close>

fun countCategories :: "(string \<times> nat) list \<Rightarrow> Task list \<Rightarrow> (string \<times> nat) list" where
  "countCategories m [] = m"
| "countCategories m (t # ts) =
     countCategories
       (case category t of
          None \<Rightarrow> m
        | Some c \<Rightarrow>
            if c = [] then m
            else mapSet m c ((case mapGet m c of None \<Rightarrow> 0 | Some n \<Rightarrow> n) + 1))
       ts"

text \<open>\<open>s.split("T")[0]\<close>: the part of \<open>s\<close> before its first \<open>T\<close>.\<close>

definition beforeT :: "string \<Rightarrow> string" where
  "beforeT s = takeWhile (\<lambda>c. c \<noteq> CHR ''T'') s"

record TaskStats =
  total :: nat
  byStatus_pending :: nat
  byStatus_in_progress :: nat
  byStatus_completed :: nat
  byPriority_high :: nat
  byPriority_medium :: nat
  byPriority_low :: nat
  categories :: "(string \<times> nat) list"
  overdue :: nat
  dueSoon :: nat
  completionRate :: string

text \<open>Lines 333 to 374.\<close>

definition computeStats :: "runtime \<Rightarrow> int \<Rightarrow> Task list \<Rightarrow> TaskStats" where
  "computeStats rt now ts =
     (let today = beforeT (toISOString rt now);
          oneWeekFromNow = beforeT (toISOString rt (now + 7 * 24 * 60 * 60 * 1000));
          completedCount = countStatus completed ts
      in \<lparr>total = length ts,
          byStatus_pending = countStatus pending ts,
          byStatus_in_progress = countStatus in_progress ts,
          byStatus_completed = completedCount,
          byPriority_high = countPriority high ts,
          byPriority_medium = countPriority medium ts,
          byPriority_low = countPriority low ts,
          categories = countCategories [] ts,
          overdue = length (filter (\<lambda>t. status t \<noteq> completed
                       \<and> (case dueDate t of
                             None \<Rightarrow> False
                           | Some d \<Rightarrow> d \<noteq> [] \<and> strLess d today)) ts),
          dueSoon = length (filter (\<lambda>t. status t \<noteq> completed
                       \<and> (case dueDate t of
                             None \<Rightarrow> False
                           | Some d \<Rightarrow> d \<noteq> [] \<and> strGeq d today \<and> strLeq d oneWeekFromNow)) ts),
          completionRate =
            (if length ts > 0
             then toFixed 1 (numTimes (numDivide (of_nat completedCount) (of_nat (length ts))) 100)
             else ''0'')\<rparr>)"

text \<open>Lines 394 and 395: the entries of the map, sorted by their keys.\<close>

definition sortedCategories :: "runtime \<Rightarrow> (string \<times> nat) list \<Rightarrow> (string \<times> nat) list" where
  "sortedCategories rt cats = sortBy (\<lambda>a b. localeCompare rt (fst a) (fst b)) cats"

text \<open>Lines 376 to 406.\<close>

definition formatStats :: "runtime \<Rightarrow> TaskStats \<Rightarrow> string" where
  "formatStats rt st =
     (let result = emoji_bars @ '' Task Manager Statistics'' @ [LF];
          result = result @ replicate 30 (CHR ''='') @ [LF, LF];
          result = result @ emoji_chart @ '' Total Tasks: '' @ showNat (total st) @ [LF];
          result = result @ emoji_check @ '' Completion Rate: '' @ completionRate st
                     @ ''%'' @ [LF, LF];
          result = result @ ''Status Breakdown:'' @ [LF];
          result = result @ ''  '' @ emoji_clipboard @ '' Pending: ''
                     @ showNat (byStatus_pending st) @ [LF];
          result = result @ ''  '' @ emoji_hourglass @ '' In Progress: ''
                     @ showNat (byStatus_in_progress st) @ [LF];
          result = result @ ''  '' @ emoji_check @ '' Completed: ''
                     @ showNat (byStatus_completed st) @ [LF, LF];
          result = result @ ''Priority Breakdown:'' @ [LF];
          result = result @ ''  '' @ emoji_red @ '' High: '' @ showNat (byPriority_high st) @ [LF];
          result = result @ ''  '' @ emoji_yellow @ '' Medium: ''
                     @ showNat (byPriority_medium st) @ [LF];
          result = result @ ''  '' @ emoji_green @ '' Low: '' @ showNat (byPriority_low st) @ [LF];
          result = (if length (categories st) > 0
                    then result @ [LF] @ ''Categories:'' @ [LF]
                           @ concat (map (\<lambda>(cat, count).
                                 ''  '' @ emoji_folder @ '' '' @ cat @ '': '' @ showNat count @ [LF])
                               (sortedCategories rt (categories st)))
                    else result);
          result = (if overdue st > 0
                    then result @ [LF] @ emoji_warning @ '' Overdue Tasks: ''
                           @ showNat (overdue st) @ [LF]
                    else result);
          result = (if dueSoon st > 0
                    then result @ emoji_calendar @ '' Due Within 7 Days: ''
                           @ showNat (dueSoon st) @ [LF]
                    else result)
      in result)"

definition getTaskStats :: "runtime \<Rightarrow> int \<Rightarrow> World \<Rightarrow> (Thrown + string) \<times> World" where
  "getTaskStats rt now w =
     (case loadTasks rt now w of
        (Inl e, w1) \<Rightarrow> (Inl e, w1)
      | (Inr storage, w1) \<Rightarrow>
          (if length (tasks storage) = 0
           then (Inr ''No tasks yet. Create your first task to get started!'', w1)
           else (Inr (formatStats rt (computeStats rt now (tasks storage))), w1)))"

subsection \<open>clearCompleted\<close>

definition clearCompleted :: "runtime \<Rightarrow> int \<Rightarrow> World \<Rightarrow> (Thrown + string) \<times> World" where
  "clearCompleted rt now w =
     (case loadTasks rt now w of
        (Inl e, w1) \<Rightarrow> (Inl e, w1)
      | (Inr storage, w1) \<Rightarrow>
          (let originalCount = length (tasks storage);
               storage = storage\<lparr>tasks := filter (\<lambda>t. status t \<noteq> completed) (tasks storage)\<rparr>;
               removedCount = originalCount - length (tasks storage);
               w2 = saveTasks rt now storage w1;
               message =
                 (if removedCount > 0
                  then emoji_broom @ '' Cleared '' @ showNat removedCount
                         @ '' completed task(s). '' @ showNat (length (tasks storage))
                         @ '' active task(s) remaining.''
                  else ''No completed tasks to clear.'')
           in (Inr message, w2)))"

section \<open>Indexed-table backend (src/storage-db.ts)\<close>

text \<open>
  \<open>v || null\<close> for an optional column: \<open>undefined\<close> and the empty string are stored as
  \<open>NULL\<close>. The columns \<open>priority\<close> and \<open>status\<close> of a task are values of their enumerations
  and \<open>title\<close> and \<open>createdAt\<close> are strings, so the \<open>CHECK\<close> and \<open>NOT NULL\<close> constraints of
  the table hold for every row written and no statement of the transaction fails.
\<close>

definition orNull :: "string option \<Rightarrow> string option" where
  "orNull v = (case v of None \<Rightarrow> None | Some s \<Rightarrow> if s = [] then None else Some s)"

definition toRow :: "Task \<Rightarrow> Task" where
  "toRow task =
     \<lparr>task_id = task_id task,
      title = title task,
      description = orNull (description task),
      priority = priority task,
      category = orNull (category task),
      dueDate = orNull (dueDate task),
      status = status task,
      createdAt = createdAt task,
      completedAt = orNull (completedAt task)\<rparr>"

text \<open>
  \<open>INSERT OR REPLACE\<close> on the primary key \<open>id\<close>: a row with the same id is deleted, and the
  new row is inserted.
\<close>

definition insertOrReplace :: "Task \<Rightarrow> Task list \<Rightarrow> Task list" where
  "insertOrReplace row rows = filter (\<lambda>r. task_id r \<noteq> task_id row) rows @ [row]"

definition db_loadTasks :: "runtime \<Rightarrow> int \<Rightarrow> World \<Rightarrow> (Thrown + TaskStorage) \<times> World" where
  "db_loadTasks rt now w = (Inr \<lparr>tasks = sqlite w, lastUpdated = toISOString rt now\<rparr>, w)"

definition db_saveTask :: "Task \<Rightarrow> World \<Rightarrow> World" where
  "db_saveTask task w = w\<lparr>sqlite := insertOrReplace (toRow task) (sqlite w)\<rparr>"

text \<open>The transaction of \<open>saveTasks\<close>: one statement for each task, in the order of the array.\<close>

fun runAll :: "Task list \<Rightarrow> Task list \<Rightarrow> Task list" where
  "runAll [] rows = rows"
| "runAll (task # ts) rows = runAll ts (insertOrReplace (toRow task) rows)"

definition db_saveTasks :: "TaskStorage \<Rightarrow> World \<Rightarrow> World" where
  "db_saveTasks storage w = w\<lparr>sqlite := runAll (tasks storage) (sqlite w)\<rparr>"

definition db_deleteTask :: "string \<Rightarrow> World \<Rightarrow> bool \<times> World" where
  "db_deleteTask taskId w =
     (length (filter (\<lambda>r. task_id r = taskId) (sqlite w)) > 0,
      w\<lparr>sqlite := filter (\<lambda>r. task_id r \<noteq> taskId) (sqlite w)\<rparr>)"

section \<open>Storage router (src/storage-router.ts)\<close>

text \<open>
  \<open>env\<close> is the value of the environment variable \<open>STORAGE_TYPE\<close>, \<open>None\<close> when it is not
  set. The router is imported by \<open>index.ts\<close>, whose resource handler reads the collection
  through it.
\<close>

datatype StorageModule = storage_js | storage_db_js

definition STORAGE_TYPE :: "runtime \<Rightarrow> string option \<Rightarrow> string" where
  "STORAGE_TYPE rt env = toLowerCase rt (orElse env ''file'')"

definition storageModule :: "runtime \<Rightarrow> string option \<Rightarrow> StorageModule" where
  "storageModule rt env =
     (if STORAGE_TYPE rt env = ''database'' \<or> STORAGE_TYPE rt env = ''db''
      then storage_db_js else storage_js)"

definition router_loadTasks ::
  "runtime \<Rightarrow> string option \<Rightarrow> int \<Rightarrow> World \<Rightarrow> (Thrown + TaskStorage) \<times> World" where
  "router_loadTasks rt env now w =
     (case storageModule rt env of
        storage_db_js \<Rightarrow> db_loadTasks rt now w
      | storage_js \<Rightarrow> loadTasks rt now w)"

definition router_saveTasks ::
  "runtime \<Rightarrow> string option \<Rightarrow> int \<Rightarrow> TaskStorage \<Rightarrow> World \<Rightarrow> World" where
  "router_saveTasks rt env now storage w =
     (case storageModule rt env of
        storage_db_js \<Rightarrow> db_saveTasks storage w
      | storage_js \<Rightarrow> saveTasks rt now storage w)"

section \<open>Properties of tasks\<close>

text \<open>A task is consistent when it has a \<open>completedAt\<close> exactly when its status is \<open>completed\<close>.\<close>

definition consistent :: "Task \<Rightarrow> bool" where
  "consistent t = ((completedAt t \<noteq> None) = (status t = completed))"

text \<open>
  The order of the listing: by rank of priority, and within a priority by due date as
  strings, a task without due date standing at \<open>9999-99-99\<close>.
\<close>

definition listOrder :: "Task \<Rightarrow> Task \<Rightarrow> bool" where
  "listOrder a b =
     (priorityOrder (priority a) < priorityOrder (priority b)
      \<or> (priorityOrder (priority a) = priorityOrder (priority b)
          \<and> strLeq (orElse (dueDate a) ''9999-99-99'') (orElse (dueDate b) ''9999-99-99'')))"

text \<open>A due date, when there is one, has the form the schemas accept.\<close>

definition validDueDate :: "Task \<Rightarrow> bool" where
  "validDueDate t = (case dueDate t of None \<Rightarrow> True | Some d \<Rightarrow> matchesDate d)"

text \<open>
  The lexicographic order of strings is \<open>lexord codeUnitOrder\<close>, characters being ordered as
  their code units.
\<close>

definition codeUnitOrder :: "(char \<times> char) set" where
  "codeUnitOrder = {(c, d). (of_char c :: nat) < of_char d}"

text \<open>The number a string of decimal digits denotes.\<close>

definition digitValue :: "char \<Rightarrow> nat" where
  "digitValue c = (of_char c :: nat) - of_char (CHR ''0'')"

definition decimalValue :: "string \<Rightarrow> nat" where
  "decimalValue s = foldl (\<lambda>a c. 10 * a + digitValue c) 0 s"

section \<open>An example runtime and state\<close>

text \<open>
  The closed instances below run the operations on this runtime: lower-casing of ASCII
  letters, comparison by code units and a clock with two readings a week apart.
  \<open>exampleWorld ts\<close> holds the collection \<open>ts\<close> in the
  document and an empty table.
\<close>

definition asciiLower :: "char \<Rightarrow> char" where
  "asciiLower c =
     (if c \<in> set ''ABCDEFGHIJKLMNOPQRSTUVWXYZ'' then char_of (of_char c + (32::nat)) else c)"

definition codeUnitCompare :: "string \<Rightarrow> string \<Rightarrow> int" where
  "codeUnitCompare a b = (if strLess a b then -1 else if strLess b a then 1 else 0)"

definition exampleClock :: "int \<Rightarrow> string" where
  "exampleClock ms =
     (if ms = 1736935200000 then ''2025-01-15T10:00:00.000Z''
      else if ms = 1737540000000 then ''2025-01-22T10:00:00.000Z''
      else ''1970-01-01T00:00:00.000Z'')"

definition exampleRuntime :: runtime where
  "exampleRuntime =
     \<lparr>toISOString = exampleClock,
      toLocaleString = (\<lambda>s. s),
      localeCompare = codeUnitCompare,
      toLowerCase = map asciiLower\<rparr>"

definition exampleTask :: "string \<Rightarrow> Priority \<Rightarrow> string option \<Rightarrow> Status \<Rightarrow> string option \<Rightarrow> Task" where
  "exampleTask i p due s done =
     \<lparr>task_id = i, title = ''Task '' @ i, description = None, priority = p, category = None,
      dueDate = due, status = s, createdAt = ''2025-01-01T09:00:00.000Z'', completedAt = done\<rparr>"

definition exampleWorld :: "Task list \<Rightarrow> World" where
  "exampleWorld ts =
     \<lparr>jsonFile = Stored \<lparr>tasks = ts, lastUpdated = ''2025-01-01T09:00:00.000Z''\<rparr>,
      sqlite = [], stderr = []\<rparr>"

section \<open>Facts about loading, lookup and the schemas\<close>

lemma loadTasks_cases:
  "loadTasks rt now w =
     (case jsonFile w of
        Absent \<Rightarrow> (Inr \<lparr>tasks = [], lastUpdated = toISOString rt now\<rparr>, w)
      | Unreadable e \<Rightarrow>
          (Inr \<lparr>tasks = [], lastUpdated = toISOString rt now\<rparr>,
           w\<lparr>stderr := stderr w @ [''Error loading tasks: '' @ e]\<rparr>)
      | Stored s \<Rightarrow> (Inr s, w))"
  by (simp add: loadTasks_def pathExists_def readJson_def Let_def split: Document.splits)

lemma loadTasks_Inr: "\<exists>storage w1. loadTasks rt now w = (Inr storage, w1)"
  by (simp add: loadTasks_cases split: Document.splits)

lemma loadTasks_jsonFile: "loadTasks rt now w = (r, w1) \<Longrightarrow> jsonFile w1 = jsonFile w \<and> sqlite w1 = sqlite w"
  by (auto simp add: loadTasks_cases split: Document.splits)

lemma findIndexFrom_neg: "0 \<le> k \<Longrightarrow> (findIndexFrom k P xs = -1) = (\<forall>x\<in>set xs. \<not> P x)"
  by (induction xs arbitrary: k) auto

lemma findIndexFrom_first:
  "i < length xs \<Longrightarrow> P (xs ! i) \<Longrightarrow> (\<And>j. j < i \<Longrightarrow> \<not> P (xs ! j)) \<Longrightarrow> findIndexFrom k P xs = k + int i"
proof (induction xs arbitrary: k i)
  case Nil then show ?case by simp
next
  case (Cons x xs)
  show ?case
  proof (cases i)
    case 0 with Cons.prems show ?thesis by simp
  next
    case (Suc n)
    have nx: "\<not> P x" using Cons.prems(3)[of 0] Suc by simp
    have later: "\<not> P (xs ! j)" if "j < n" for j
      using Cons.prems(3)[of "Suc j"] that Suc by simp
    have "findIndexFrom (k + 1) P xs = k + 1 + int n"
      using Cons.prems(1,2) Suc later by (intro Cons.IH) auto
    with nx Suc show ?thesis by simp
  qed
qed

lemma findIndexFrom_found:
  "findIndexFrom k P xs \<noteq> -1 \<Longrightarrow> 0 \<le> k \<Longrightarrow>
     k \<le> findIndexFrom k P xs \<and> nat (findIndexFrom k P xs - k) < length xs
     \<and> P (xs ! nat (findIndexFrom k P xs - k))
     \<and> (\<forall>j < nat (findIndexFrom k P xs - k). \<not> P (xs ! j))"
proof (induction xs arbitrary: k)
  case Nil then show ?case by simp
next
  case (Cons x xs)
  show ?case
  proof (cases "P x")
    case True then show ?thesis by simp
  next
    case False
    let ?r = "findIndexFrom (k + 1) P xs"
    have r: "findIndexFrom k P (x # xs) = ?r" using False by simp
    have ih: "k + 1 \<le> ?r \<and> nat (?r - (k + 1)) < length xs \<and> P (xs ! nat (?r - (k + 1)))
        \<and> (\<forall>j < nat (?r - (k + 1)). \<not> P (xs ! j))"
      using Cons.prems r by (intro Cons.IH) auto
    have eq: "nat (?r - k) = Suc (nat (?r - (k + 1)))" using ih by linarith
    show ?thesis unfolding r eq using ih False
      by (auto simp: nth_Cons split: nat.splits)
  qed
qed

lemma andAlso_Inl: "andAlso (Inl e) q = Inl (case q of Inr b \<Rightarrow> e | Inl f \<Rightarrow> e @ f)"
  by (simp add: andAlso_def split: sum.splits)

lemma andAlso_Inr_iff: "(andAlso p q = Inr x) = (p = Inr (fst x) \<and> q = Inr (snd x))"
  by (cases p; cases q; cases x) (auto simp: andAlso_def)

lemma zStringMin_short:
  "length p < n \<Longrightarrow> zStringMin n m k (Some (Str p)) = Inl [too_small k m]"
  by (simp add: zStringMin_def)

lemma zStringMin_Inr_iff:
  "(zStringMin n m k v = Inr p) = (v = Some (Str p) \<and> n \<le> length p)"
  by (auto simp: zStringMin_def split: option.splits jsvalue.splits)

lemma map_sum_id_Inr_iff: "(map_sum id f x = Inr v) = (\<exists>y. x = Inr y \<and> v = f y)"
  by (cases x) auto

lemma UpdateTaskSchema_short:
  assumes "args ''taskId'' = Some (Str p)" "length p < 8"
  shows "\<exists>issues. UpdateTaskSchema args = Inl issues
           \<and> too_small ''taskId'' ''Task ID must be at least 8 characters'' \<in> set issues"
  unfolding UpdateTaskSchema_def using assms
  by (simp add: zStringMin_short andAlso_Inl split: sum.splits)

lemma UpdateTaskSchema_taskId:
  assumes "UpdateTaskSchema args = Inr v"
  shows "args ''taskId'' = Some (Str (update_taskId v)) \<and> 8 \<le> length (update_taskId v)"
  using assms unfolding UpdateTaskSchema_def
  by (auto simp: map_sum_id_Inr_iff andAlso_Inr_iff zStringMin_Inr_iff)

lemma TaskIdSchema_short:
  assumes "args ''taskId'' = Some (Str p)" "length p < 8"
  shows "TaskIdSchema args = Inl [too_small ''taskId'' ''Task ID must be at least 8 characters'']"
  using assms by (simp add: TaskIdSchema_def zStringMin_short)

lemma applyUpdate_completedAt:
  "completedAt (applyUpdate rt now v t) =
     (case update_status v of
        None \<Rightarrow> completedAt t
      | Some s \<Rightarrow>
          if s = completed
          then (if truthy (completedAt t) then completedAt t else Some (toISOString rt now))
          else None)"
  by (simp add: applyUpdate_def Let_def split: option.splits)

lemma applyUpdate_status:
  "status (applyUpdate rt now v t) = (case update_status v of None \<Rightarrow> status t | Some s \<Rightarrow> s)"
  by (simp add: applyUpdate_def Let_def split: option.splits)

lemma findIndex_neg: "(findIndex P xs = -1) = (\<forall>x\<in>set xs. \<not> P x)"
  by (simp add: findIndex_def findIndexFrom_neg)

lemma findIndex_first:
  "i < length xs \<Longrightarrow> P (xs ! i) \<Longrightarrow> (\<And>j. j < i \<Longrightarrow> \<not> P (xs ! j)) \<Longrightarrow> findIndex P xs = int i"
  using findIndexFrom_first [of i xs P 0] by (simp add: findIndex_def)

lemma findIndex_found:
  assumes "findIndex P xs = int i"
  shows "i < length xs \<and> P (xs ! i) \<and> (\<forall>j<i. \<not> P (xs ! j))"
  using findIndexFrom_found [of 0 P xs] assms by (simp add: findIndex_def)

lemma updateTask_found:
  assumes "UpdateTaskSchema args = Inr v"
    and "loadTasks rt now w = (Inr storage, w1)"
    and "findIndex (\<lambda>t. startsWith (task_id t) (update_taskId v)) (tasks storage) = int i"
  shows "updateTask rt now args w =
     (Inr (emoji_check @ '' Task updated successfully!'' @ [LF, LF]
             @ formatTask rt (applyUpdate rt now v (tasks storage ! i))),
      saveTasks rt now
        (storage\<lparr>tasks := (tasks storage)[i := applyUpdate rt now v (tasks storage ! i)]\<rparr>) w1)"
  using assms by (simp add: updateTask_def Let_def)

lemma length_filter_completed:
  "length ts - length (filter (\<lambda>t. status t \<noteq> completed) ts) = countStatus completed ts"
  using sum_length_filter_compl [of "\<lambda>t. status t = completed" ts]
  by (simp add: countStatus_def)

lemma removed_positive:
  "(0 < length ts - length (filter (\<lambda>t. status t \<noteq> completed) ts))
     = (0 < countStatus completed ts)"
  by (simp only: length_filter_completed)

lemma find_first:
  "i < length xs \<Longrightarrow> P (xs ! i) \<Longrightarrow> (\<And>j. j < i \<Longrightarrow> \<not> P (xs ! j)) \<Longrightarrow>
     find P xs = Some (xs ! i) \<and> modifyFirst P f xs = xs[i := f (xs ! i)]"
proof (induction xs arbitrary: i)
  case Nil then show ?case by simp
next
  case (Cons x xs)
  show ?case
  proof (cases i)
    case 0 with Cons.prems show ?thesis by simp
  next
    case (Suc n)
    have nx: "\<not> P x" using Cons.prems(3)[of 0] Suc by simp
    have later: "\<not> P (xs ! j)" if "j < n" for j
      using Cons.prems(3)[of "Suc j"] that Suc by simp
    have "find P xs = Some (xs ! n) \<and> modifyFirst P f xs = xs[n := f (xs ! n)]"
      using Cons.prems(1,2) Suc later by (intro Cons.IH) auto
    with nx Suc show ?thesis by simp
  qed
qed

lemma find_none: "(\<forall>x\<in>set xs. \<not> P x) \<Longrightarrow> find P xs = None"
  by (induction xs) auto

lemma TaskIdSchema_ok:
  "args ''taskId'' = Some (Str p) \<Longrightarrow> 8 \<le> length p \<Longrightarrow> TaskIdSchema args = Inr p"
  by (simp add: TaskIdSchema_def zStringMin_Inr_iff)

lemma deleteTask_found:
  assumes "TaskIdSchema args = Inr p"
    and "loadTasks rt now w = (Inr storage, w1)"
    and "findIndex (\<lambda>t. startsWith (task_id t) p) (tasks storage) = int i"
  shows "deleteTask rt now args w =
     (Inr (emoji_wastebasket @ '' Task '' @ [CHR 0x22] @ title (tasks storage ! i)
             @ [CHR 0x22] @ '' deleted successfully.''),
      saveTasks rt now (storage\<lparr>tasks := take i (tasks storage) @ drop (Suc i) (tasks storage)\<rparr>) w1)"
  using assms by (simp add: deleteTask_def Let_def splice1_def)

lemma completeTask_found:
  assumes "TaskIdSchema args = Inr p"
    and "loadTasks rt now w = (Inr storage, w1)"
    and "i < length (tasks storage)" "startsWith (task_id (tasks storage ! i)) p"
    and "\<And>j. j < i \<Longrightarrow> \<not> startsWith (task_id (tasks storage ! j)) p"
  shows "completeTask rt now args w =
     (Inr (emoji_check @ '' Task completed!'' @ [LF, LF]
             @ formatTask rt ((tasks storage ! i)\<lparr>status := completed,
                                 completedAt := Some (toISOString rt now)\<rparr>)),
      saveTasks rt now
        (storage\<lparr>tasks := (tasks storage)[i := (tasks storage ! i)\<lparr>status := completed,
                                 completedAt := Some (toISOString rt now)\<rparr>]\<rparr>) w1)"
  using assms(1,2)
    find_first [of i "tasks storage" "\<lambda>t. startsWith (task_id t) p", OF assms(3,4,5)]
  by (simp add: completeTask_def Let_def)

lemma not_found_results:
  assumes "loadTasks rt now w = (Inr storage, w1)"
    and "\<forall>t\<in>set (tasks storage). \<not> startsWith (task_id t) p"
  shows "UpdateTaskSchema args = Inr v \<Longrightarrow> update_taskId v = p \<Longrightarrow>
           updateTask rt now args w = (Inr (notFound p), w1)"
    and "TaskIdSchema args = Inr p \<Longrightarrow> deleteTask rt now args w = (Inr (notFound p), w1)"
    and "TaskIdSchema args = Inr p \<Longrightarrow> completeTask rt now args w = (Inr (notFound p), w1)"
  using assms
  by (simp_all add: updateTask_def deleteTask_def completeTask_def Let_def findIndex_neg find_none)

section \<open>What each operation leaves in the document\<close>

lemma findIndex_cases:
  "findIndex P xs = -1 \<or> (\<exists>i. findIndex P xs = int i \<and> i < length xs)"
proof (cases "findIndex P xs = -1")
  case True then show ?thesis by simp
next
  case False
  then have "0 \<le> findIndex P xs \<and> nat (findIndex P xs) < length xs"
    using findIndexFrom_found [of 0 P xs] by (simp add: findIndex_def)
  then have "findIndex P xs = int (nat (findIndex P xs)) \<and> nat (findIndex P xs) < length xs"
    by simp
  then show ?thesis by blast
qed

lemma consistent_applyUpdate: "consistent t \<Longrightarrow> consistent (applyUpdate rt now v t)"
  by (auto simp: consistent_def applyUpdate_completedAt applyUpdate_status truthy_def
      split: option.splits)

lemma set_modifyFirst: "set (modifyFirst P f xs) \<subseteq> set xs \<union> f ` set xs"
  by (induction xs) auto

lemma loaded_tasks:
  "loadTasks rt now w = (Inr storage, w1) \<Longrightarrow>
     tasks storage = (case jsonFile w of Stored s \<Rightarrow> tasks s | _ \<Rightarrow> [])"
  by (auto simp: loadTasks_cases split: Document.splits)

lemma createTask_outcome:
  assumes "loadTasks rt now w = (Inr storage, w1)"
  shows "jsonFile (snd (createTask rt now uuid args w)) = jsonFile w
     \<or> (\<exists>t l. jsonFile (snd (createTask rt now uuid args w))
                 = Stored \<lparr>tasks = tasks storage @ [t], lastUpdated = l\<rparr>
              \<and> status t = pending \<and> completedAt t = None)"
  using assms
  by (cases storage) (auto simp: createTask_def Let_def saveTasks_def split: sum.splits)

lemma updateTask_outcome:
  assumes "loadTasks rt now w = (Inr storage, w1)"
  shows "jsonFile (snd (updateTask rt now args w)) = jsonFile w
     \<or> (\<exists>i v l. i < length (tasks storage)
           \<and> jsonFile (snd (updateTask rt now args w))
               = Stored \<lparr>tasks = (tasks storage)[i := applyUpdate rt now v (tasks storage ! i)],
                         lastUpdated = l\<rparr>)"
proof (cases "UpdateTaskSchema args")
  case (Inl issues)
  then show ?thesis by (simp add: updateTask_def)
next
  case (Inr v)
  let ?P = "\<lambda>t. startsWith (task_id t) (update_taskId v)"
  from findIndex_cases [of ?P "tasks storage"] show ?thesis
  proof
    assume "findIndex ?P (tasks storage) = -1"
    then show ?thesis
      using Inr assms loadTasks_jsonFile [OF assms] by (simp add: updateTask_def Let_def)
  next
    assume "\<exists>i. findIndex ?P (tasks storage) = int i \<and> i < length (tasks storage)"
    then obtain i where i: "findIndex ?P (tasks storage) = int i" "i < length (tasks storage)"
      by blast
    show ?thesis
      using updateTask_found [OF Inr assms i(1)] i(2)
      by (cases storage) (auto simp: saveTasks_def)
  qed
qed

lemma deleteTask_outcome:
  assumes "loadTasks rt now w = (Inr storage, w1)"
  shows "jsonFile (snd (deleteTask rt now args w)) = jsonFile w
     \<or> (\<exists>i l. jsonFile (snd (deleteTask rt now args w))
               = Stored \<lparr>tasks = take i (tasks storage) @ drop (Suc i) (tasks storage),
                         lastUpdated = l\<rparr>)"
proof (cases "TaskIdSchema args")
  case (Inl issues)
  then show ?thesis by (simp add: deleteTask_def)
next
  case (Inr p)
  let ?P = "\<lambda>t. startsWith (task_id t) p"
  from findIndex_cases [of ?P "tasks storage"] show ?thesis
  proof
    assume "findIndex ?P (tasks storage) = -1"
    then show ?thesis
      using Inr assms loadTasks_jsonFile [OF assms] by (simp add: deleteTask_def Let_def)
  next
    assume "\<exists>i. findIndex ?P (tasks storage) = int i \<and> i < length (tasks storage)"
    then obtain i where i: "findIndex ?P (tasks storage) = int i" by blast
    show ?thesis
      using deleteTask_found [OF Inr assms i]
      by (cases storage) (auto simp: saveTasks_def)
  qed
qed

lemma completeTask_outcome:
  assumes "loadTasks rt now w = (Inr storage, w1)"
  shows "jsonFile (snd (completeTask rt now args w)) = jsonFile w
     \<or> (\<exists>ts t l. jsonFile (snd (completeTask rt now args w)) = Stored \<lparr>tasks = ts, lastUpdated = l\<rparr>
           \<and> set ts \<subseteq> insert t (set (tasks storage))
           \<and> status t = completed \<and> completedAt t = Some (toISOString rt now))"
proof (cases "TaskIdSchema args")
  case (Inl issues)
  then show ?thesis by (simp add: completeTask_def)
next
  case (Inr p)
  let ?P = "\<lambda>t. startsWith (task_id t) p"
  show ?thesis
  proof (cases "find ?P (tasks storage)")
    case None
    then show ?thesis
      using Inr assms loadTasks_jsonFile [OF assms] by (simp add: completeTask_def)
  next
    case (Some found)
    let ?t = "found\<lparr>status := completed, completedAt := Some (toISOString rt now)\<rparr>"
    have "set (modifyFirst ?P (\<lambda>_. ?t) (tasks storage)) \<subseteq> insert ?t (set (tasks storage))"
      using set_modifyFirst [of ?P "\<lambda>_. ?t" "tasks storage"] by auto
    then show ?thesis
      using Inr assms Some
      by (cases storage) (auto simp: completeTask_def Let_def saveTasks_def)
  qed
qed

lemma clearCompleted_result:
  assumes "loadTasks rt now w = (Inr storage, w1)"
  shows "clearCompleted rt now w =
     (Inr (if countStatus completed (tasks storage) > 0
           then emoji_broom @ '' Cleared '' @ showNat (countStatus completed (tasks storage))
                  @ '' completed task(s). ''
                  @ showNat (length (filter (\<lambda>t. status t \<noteq> completed) (tasks storage)))
                  @ '' active task(s) remaining.''
           else ''No completed tasks to clear.''),
      w1\<lparr>jsonFile := Stored \<lparr>tasks = filter (\<lambda>t. status t \<noteq> completed) (tasks storage),
                               lastUpdated = toISOString rt now\<rparr>\<rparr>)"
  using assms
  by (cases storage)
    (simp add: clearCompleted_def Let_def saveTasks_def length_filter_completed removed_positive
      del: zero_less_diff)

lemma readers_keep_document:
  "jsonFile (snd (listTasks rt now args w)) = jsonFile w"
  "jsonFile (snd (searchTasks rt now args w)) = jsonFile w"
  "jsonFile (snd (getTaskStats rt now w)) = jsonFile w"
proof -
  obtain storage w1 where load: "loadTasks rt now w = (Inr storage, w1)"
    using loadTasks_Inr by blast
  note same = loadTasks_jsonFile [OF load]
  show "jsonFile (snd (listTasks rt now args w)) = jsonFile w"
    using load same by (simp add: listTasks_def Let_def split: sum.splits)
  show "jsonFile (snd (searchTasks rt now args w)) = jsonFile w"
    using load same by (simp add: searchTasks_def Let_def split: sum.splits)
  show "jsonFile (snd (getTaskStats rt now w)) = jsonFile w"
    using load same by (simp add: getTaskStats_def)
qed

text \<open>No operation of \<open>tools.ts\<close> writes to the table.\<close>

lemma operations_keep_table:
  "sqlite (snd (createTask rt now uuid args w)) = sqlite w"
  "sqlite (snd (listTasks rt now args w)) = sqlite w"
  "sqlite (snd (updateTask rt now args w)) = sqlite w"
  "sqlite (snd (deleteTask rt now args w)) = sqlite w"
  "sqlite (snd (completeTask rt now args w)) = sqlite w"
  "sqlite (snd (searchTasks rt now args w)) = sqlite w"
  "sqlite (snd (getTaskStats rt now w)) = sqlite w"
  "sqlite (snd (clearCompleted rt now w)) = sqlite w"
proof -
  obtain storage w1 where load: "loadTasks rt now w = (Inr storage, w1)"
    using loadTasks_Inr by blast
  note same = loadTasks_jsonFile [OF load]
  show "sqlite (snd (createTask rt now uuid args w)) = sqlite w"
    using load same by (simp add: createTask_def Let_def saveTasks_def split: sum.splits)
  show "sqlite (snd (listTasks rt now args w)) = sqlite w"
    using load same by (simp add: listTasks_def Let_def split: sum.splits)
  show "sqlite (snd (updateTask rt now args w)) = sqlite w"
    using load same by (simp add: updateTask_def Let_def saveTasks_def split: sum.splits)
  show "sqlite (snd (deleteTask rt now args w)) = sqlite w"
    using load same by (simp add: deleteTask_def Let_def saveTasks_def split: sum.splits)
  show "sqlite (snd (completeTask rt now args w)) = sqlite w"
    using load same
    by (simp add: completeTask_def Let_def saveTasks_def split: sum.splits option.splits)
  show "sqlite (snd (searchTasks rt now args w)) = sqlite w"
    using load same by (simp add: searchTasks_def Let_def split: sum.splits)
  show "sqlite (snd (getTaskStats rt now w)) = sqlite w"
    using load same by (simp add: getTaskStats_def)
  show "sqlite (snd (clearCompleted rt now w)) = sqlite w"
    using load same by (simp add: clearCompleted_def Let_def saveTasks_def)
qed

lemma reload_unchanged:
  assumes "loadTasks rt now w = (Inr storage, w1)"
    and "loadTasks rt later w' = (Inr storage', w2)"
    and "jsonFile w' = jsonFile w"
  shows "tasks storage' = tasks storage"
  using loaded_tasks [OF assms(1)] loaded_tasks [OF assms(2)] assms(3) by simp

lemma reload_stored:
  assumes "loadTasks rt later w' = (Inr storage', w2)"
    and "jsonFile w' = Stored \<lparr>tasks = ts, lastUpdated = l\<rparr>"
  shows "tasks storage' = ts"
  using loaded_tasks [OF assms(1)] assms(2) by simp

section \<open>Rows of the table\<close>

lemma task_id_toRow: "task_id (toRow t) = task_id t"
  by (simp add: toRow_def)

lemma filter_insertOrReplace_other:
  "k \<noteq> task_id row \<Longrightarrow>
     filter (\<lambda>r. task_id r = k) (insertOrReplace row rows) = filter (\<lambda>r. task_id r = k) rows"
  by (induction rows) (auto simp: insertOrReplace_def)

lemma filter_insertOrReplace_same:
  "filter (\<lambda>r. task_id r = task_id row) (insertOrReplace row rows) = [row]"
  by (induction rows) (auto simp: insertOrReplace_def)

lemma filter_runAll_other:
  "k \<notin> task_id ` set ts \<Longrightarrow>
     filter (\<lambda>r. task_id r = k) (runAll ts rows) = filter (\<lambda>r. task_id r = k) rows"
  by (induction ts arbitrary: rows) (auto simp: filter_insertOrReplace_other task_id_toRow)

lemma filter_runAll_same:
  "k \<in> task_id ` set ts \<Longrightarrow>
     filter (\<lambda>r. task_id r = k) (runAll ts rows)
       = [toRow (last (filter (\<lambda>u. task_id u = k) ts))]"
proof (induction ts arbitrary: rows)
  case Nil then show ?case by simp
next
  case (Cons t ts)
  show ?case
  proof (cases "k \<in> task_id ` set ts")
    case True
    then have ne: "filter (\<lambda>u. task_id u = k) ts \<noteq> []"
      by (auto simp: filter_empty_conv)
    show ?thesis using Cons.IH [OF True] ne by simp
  next
    case False
    then have k: "task_id t = k" using Cons.prems by auto
    have none: "filter (\<lambda>u. task_id u = k) ts = []"
      using False by (auto simp: filter_empty_conv)
    have "filter (\<lambda>r. task_id r = k) (runAll (t # ts) rows)
        = filter (\<lambda>r. task_id r = k) (insertOrReplace (toRow t) rows)"
      using filter_runAll_other [OF False] by simp
    also have "\<dots> = [toRow t]"
      using filter_insertOrReplace_same [of "toRow t" rows] k by (simp add: task_id_toRow)
    finally show ?thesis using k none by simp
  qed
qed

section \<open>Order of strings and sorting\<close>

lemma strLess_irrefl: "\<not> strLess a a"
  by (induction a) auto

lemma strLess_trans: "strLess a b \<Longrightarrow> strLess b c \<Longrightarrow> strLess a c"
proof (induction a b arbitrary: c rule: strLess.induct)
  case 1 then show ?case by simp
next
  case (2 d b) then show ?case by (cases c) auto
next
  case (3 c a) then show ?case by simp
next
  case (4 x a y b)
  then show ?case
    by (cases c) (auto split: if_splits)
qed

lemma strLess_total: "strLess a b \<or> a = b \<or> strLess b a"
proof (induction a b rule: strLess.induct)
  case (4 c a d b)
  have "c \<noteq> d \<Longrightarrow> (of_char c :: nat) < of_char d \<or> (of_char d :: nat) < of_char c"
    using of_char_eq_iff [of c d, where ?'a = nat] by linarith
  with 4 show ?case by auto
qed auto

lemma strLess_asym: "strLess a b \<Longrightarrow> \<not> strLess b a"
  using strLess_trans strLess_irrefl by blast

lemma strLeq_total: "strLeq a b \<or> strLeq b a"
  using strLess_asym by (auto simp: strLeq_def)

lemma strLeq_trans: "strLeq a b \<Longrightarrow> strLeq b c \<Longrightarrow> strLeq a c"
  unfolding strLeq_def using strLess_total [of a b] strLess_total [of b c] strLess_trans
  by metis

lemma mset_insertBy: "mset (insertBy cmp x xs) = add_mset x (mset xs)"
  by (induction xs) auto

lemma mset_sortBy: "mset (sortBy cmp xs) = mset xs"
  by (induction xs) (auto simp: mset_insertBy)

lemma set_insertBy: "set (insertBy cmp x xs) = insert x (set xs)"
  using mset_insertBy [of cmp x xs] by (metis set_mset_add_mset_insert set_mset_mset)

lemma set_sortBy: "set (sortBy cmp xs) = set xs"
  using mset_sortBy [of cmp xs] by (metis set_mset_mset)

lemma sorted_insertBy:
  assumes agree: "\<And>a b. a \<in> S \<Longrightarrow> b \<in> S \<Longrightarrow> (cmp a b \<le> 0) = R a b"
    and total: "\<And>a b. a \<in> S \<Longrightarrow> b \<in> S \<Longrightarrow> R a b \<or> R b a"
    and trans: "\<And>a b c. a \<in> S \<Longrightarrow> b \<in> S \<Longrightarrow> c \<in> S \<Longrightarrow> R a b \<Longrightarrow> R b c \<Longrightarrow> R a c"
  shows "x \<in> S \<Longrightarrow> set xs \<subseteq> S \<Longrightarrow> sorted_wrt R xs \<Longrightarrow> sorted_wrt R (insertBy cmp x xs)"
proof (induction xs)
  case Nil then show ?case by simp
next
  case (Cons y ys)
  show ?case
  proof (cases "cmp x y \<le> 0")
    case True
    then have xy: "R x y" using agree Cons.prems by simp
    have "R x z" if "z \<in> set ys" for z
      using trans [of x y z] xy Cons.prems that by auto
    then show ?thesis using True xy Cons.prems by auto
  next
    case False
    then have "\<not> R x y" using agree Cons.prems by simp
    then have yx: "R y x" using total [of x y] Cons.prems by auto
    have "sorted_wrt R (insertBy cmp x ys)" using Cons by simp
    then show ?thesis using False yx Cons.prems by (auto simp: set_insertBy)
  qed
qed

lemma sorted_sortBy:
  assumes agree: "\<And>a b. a \<in> S \<Longrightarrow> b \<in> S \<Longrightarrow> (cmp a b \<le> 0) = R a b"
    and total: "\<And>a b. a \<in> S \<Longrightarrow> b \<in> S \<Longrightarrow> R a b \<or> R b a"
    and trans: "\<And>a b c. a \<in> S \<Longrightarrow> b \<in> S \<Longrightarrow> c \<in> S \<Longrightarrow> R a b \<Longrightarrow> R b c \<Longrightarrow> R a c"
  shows "set xs \<subseteq> S \<Longrightarrow> sorted_wrt R (sortBy cmp xs)"
proof (induction xs)
  case Nil then show ?case by simp
next
  case (Cons x xs)
  have "sorted_wrt R (insertBy cmp x (sortBy cmp xs))"
    using Cons by (intro sorted_insertBy [where S = S, OF agree total trans]) (auto simp: set_sortBy)
  then show ?case by simp
qed

lemma matchesDate_nonempty: "matchesDate d \<Longrightarrow> d \<noteq> []"
  by (auto simp: matchesDate_def)

lemma matchesDate_sentinel: "matchesDate ''9999-99-99''"
  by (simp add: matchesDate_def isDigit_def)

lemma dateKey_valid: "validDueDate t \<Longrightarrow> matchesDate (orElse (dueDate t) ''9999-99-99'')"
  by (auto simp: validDueDate_def orElse_def matchesDate_sentinel matchesDate_nonempty
      split: option.splits)

lemma compareTasks_listOrder:
  assumes "\<forall>a b. matchesDate a \<and> matchesDate b \<longrightarrow> (localeCompare rt a b \<le> 0) = strLeq a b"
    and "validDueDate a" "validDueDate b"
  shows "(compareTasks rt a b \<le> 0) = listOrder a b"
  using assms(1) dateKey_valid [OF assms(2)] dateKey_valid [OF assms(3)]
  by (auto simp: compareTasks_def listOrder_def Let_def)

lemma listOrder_total: "listOrder a b \<or> listOrder b a"
  using strLeq_total by (auto simp: listOrder_def)

lemma listOrder_trans: "listOrder a b \<Longrightarrow> listOrder b c \<Longrightarrow> listOrder a c"
  using strLeq_trans by (auto simp: listOrder_def)

lemma set_applyFilters: "set (applyFilters rt validated ts) \<subseteq> set ts"
  by (auto simp: applyFilters_def Let_def split: selection.splits if_splits)

lemma listTasks_found:
  assumes "ListTasksSchema args = Inr validated"
    and "loadTasks rt now w = (Inr storage, w1)"
    and "applyFilters rt validated (tasks storage) \<noteq> []"
  shows "listTasks rt now args w =
     (Inr (formatListing rt (sortBy (compareTasks rt) (applyFilters rt validated (tasks storage)))
             (tasks storage)), w1)"
  using assms by (simp add: listTasks_def Let_def)

lemma codeUnitCompare_le: "(codeUnitCompare a b \<le> 0) = strLeq a b"
  using strLess_asym [of a b] by (auto simp: codeUnitCompare_def strLeq_def)

lemma ListTasksSchema_empty:
  "ListTasksSchema Map.empty = Inr \<lparr>list_status = All, list_priority = All, list_category = None\<rparr>"
  by (simp add: ListTasksSchema_def zDefault_def zOptional_def andAlso_def)

section \<open>Counting categories\<close>

lemma map_fst_mapSet_present:
  "map fst (map (\<lambda>(k', v'). if k' = k then (k', v) else (k', v')) m) = map fst m"
  by (induction m) auto

lemma map_of_mapSet_present:
  "map_of (map (\<lambda>(k', v'). if k' = k then (k', v) else (k', v')) m) x
     = (if x = k then map_option (\<lambda>_. v) (map_of m x) else map_of m x)"
  by (induction m) auto

lemma distinct_mapSet: "distinct (map fst m) \<Longrightarrow> distinct (map fst (mapSet m k v))"
  by (auto simp: mapSet_def map_fst_mapSet_present simp del: map_map)

lemma map_of_mapSet:
  "map_of (mapSet m k v) x = (if x = k then Some v else map_of m x)"
proof (cases "k \<in> fst ` set m")
  case True
  then obtain y where "map_of m k = Some y"
    by (metis domD dom_map_of_conv_image_fst)
  then show ?thesis using True by (simp add: mapSet_def map_of_mapSet_present)
next
  case False
  then have "map_of m k = None" by (simp add: map_of_eq_None_iff)
  then show ?thesis using False by (auto simp: mapSet_def map_add_def split: option.splits)
qed

lemma countCategories_keys: "distinct (map fst m) \<Longrightarrow> distinct (map fst (countCategories m ts))"
  by (induction ts arbitrary: m) (auto simp: distinct_mapSet split: option.splits)

lemma map_of_countCategories:
  "map_of (countCategories m ts) c =
     (case map_of m c of
        None \<Rightarrow> if c \<noteq> [] \<and> 0 < length (filter (\<lambda>t. category t = Some c) ts)
                then Some (length (filter (\<lambda>t. category t = Some c) ts)) else None
      | Some k \<Rightarrow>
          Some (k + (if c = [] then 0 else length (filter (\<lambda>t. category t = Some c) ts))))"
proof (induction ts arbitrary: m)
  case Nil
  then show ?case by (simp split: option.splits)
next
  case (Cons t ts)
  show ?case
  proof (cases "category t")
    case None
    then show ?thesis using Cons.IH [of m] by (auto split: option.splits)
  next
    case (Some x)
    show ?thesis
    proof (cases "x = []")
      case True
      then show ?thesis using Some Cons.IH [of m] by (auto split: option.splits)
    next
      case False
      let ?m = "mapSet m x ((case mapGet m x of None \<Rightarrow> 0 | Some n \<Rightarrow> n) + 1)"
      have step: "countCategories m (t # ts) = countCategories ?m ts"
        using Some False by simp
      show ?thesis
        unfolding step Cons.IH [of ?m]
        using Some False
        by (auto simp: map_of_mapSet mapGet_def split: option.splits)
    qed
  qed
qed

lemma categories_counted:
  "((c, n) \<in> set (countCategories [] ts))
     = (c \<noteq> [] \<and> 0 < n \<and> n = length (filter (\<lambda>t. category t = Some c) ts))"
proof -
  have d: "distinct (map fst (countCategories [] ts))"
    by (rule countCategories_keys) simp
  have "((c, n) \<in> set (countCategories [] ts)) = (map_of (countCategories [] ts) c = Some n)"
    using d by simp
  then show ?thesis by (auto simp: map_of_countCategories)
qed

lemma sorted_sortedCategories:
  assumes "\<forall>a b. localeCompare rt a b \<le> 0 \<or> localeCompare rt b a \<le> 0"
    and "\<forall>a b c. localeCompare rt a b \<le> 0 \<and> localeCompare rt b c \<le> 0 \<longrightarrow> localeCompare rt a c \<le> 0"
  shows "sorted_wrt (\<lambda>a b. localeCompare rt (fst a) (fst b) \<le> 0) (sortedCategories rt cats)"
  unfolding sortedCategories_def
proof (rule sorted_sortBy [where S = UNIV])
  show "localeCompare rt (fst a) (fst b) \<le> 0 \<or> localeCompare rt (fst b) (fst a) \<le> 0" for a b :: "string \<times> nat"
    using assms(1) by blast
  show "localeCompare rt (fst a) (fst b) \<le> 0 \<Longrightarrow> localeCompare rt (fst b) (fst c) \<le> 0
      \<Longrightarrow> localeCompare rt (fst a) (fst c) \<le> 0" for a b c :: "string \<times> nat"
    using assms(2) by blast
qed simp_all

lemma due_filters:
  "(case dueDate t of None \<Rightarrow> False | Some d \<Rightarrow> d \<noteq> [] \<and> P d)
     = (\<exists>d. dueDate t = Some d \<and> d \<noteq> [] \<and> P d)"
  by (cases "dueDate t") auto

section \<open>Rounding to a double and rendering\<close>

lemma pow2_bitlen:
  assumes "0 < a"
  shows "(2::rat) powi (bitlen a - 1) \<le> of_int a \<and> of_int a < (2::rat) powi (bitlen a)"
proof -
  have b: "2 ^ nat (bitlen a - 1) \<le> a \<and> a < 2 ^ nat (bitlen a)"
    using bitlen_bounds [OF assms] .
  have pos: "1 \<le> bitlen a" using assms by (simp add: bitlen_alt_def)
  have "(of_int (2 ^ nat (bitlen a - 1)) :: rat) \<le> of_int a"
    using b by (simp only: of_int_le_iff)
  moreover have "(of_int a :: rat) < of_int (2 ^ nat (bitlen a))"
    using b by (simp only: of_int_less_iff)
  moreover have "(2::rat) powi (bitlen a - 1) = 2 ^ nat (bitlen a - 1)"
    using pos by (simp add: power_int_def)
  moreover have "(2::rat) powi (bitlen a) = 2 ^ nat (bitlen a)"
    using pos by (simp add: power_int_def)
  ultimately show ?thesis by simp
qed

lemma binade_bounds:
  assumes "0 < x"
  shows "2 powi (binade x) \<le> x \<and> x < 2 powi (binade x + 1)"
proof -
  obtain a b where q: "quotient_of x = (a, b)" by (cases "quotient_of x")
  have b: "0 < b" using quotient_of_denom_pos [OF q] .
  have x: "x = of_int a / of_int b" using quotient_of_div [OF q] .
  have a: "0 < a" using assms b x by (simp add: zero_less_divide_iff)
  let ?k = "bitlen a - bitlen b"
  note A = pow2_bitlen [OF a] and B = pow2_bitlen [OF b]
  have bpos: "(0::rat) < of_int b" using b by simp
  have upper: "x < 2 powi (?k + 1)"
  proof -
    have "x * 2 powi (bitlen b - 1) \<le> x * of_int b"
      using A B assms by (intro mult_left_mono) auto
    also have "\<dots> = of_int a" using x bpos by simp
    also have "\<dots> < 2 powi (bitlen a)" using A by simp
    finally have "x * 2 powi (bitlen b - 1) < 2 powi (bitlen a)" .
    then have "x < 2 powi (bitlen a) / 2 powi (bitlen b - 1)"
      by (simp add: pos_less_divide_eq)
    also have "\<dots> = 2 powi (bitlen a - (bitlen b - 1))"
      by (simp add: power_int_diff)
    also have "bitlen a - (bitlen b - 1) = ?k + 1" by simp
    finally show ?thesis .
  qed
  have lower: "2 powi (?k - 1) < x"
  proof -
    have "2 powi (bitlen a - 1) \<le> (of_int a :: rat)" using A by simp
    also have "\<dots> = x * of_int b" using x bpos by simp
    also have "\<dots> < x * 2 powi (bitlen b)"
      using B assms by (intro mult_strict_left_mono) auto
    finally have "2 powi (bitlen a - 1) < x * 2 powi (bitlen b)" .
    then have "2 powi (bitlen a - 1) / 2 powi (bitlen b) < x"
      by (simp add: pos_divide_less_eq)
    moreover have "(2::rat) powi (bitlen a - 1) / 2 powi (bitlen b)
        = 2 powi (bitlen a - 1 - bitlen b)"
      by (simp add: power_int_diff)
    moreover have "bitlen a - 1 - bitlen b = ?k - 1" by simp
    ultimately show ?thesis by simp
  qed
  show ?thesis
  proof (cases "2 powi ?k \<le> x")
    case True
    then have "binade x = ?k" using q by (simp add: binade_def)
    then show ?thesis using True upper by simp
  next
    case False
    then have "binade x = ?k - 1" using q by (simp add: binade_def)
    then show ?thesis using False lower by simp
  qed
qed

lemma roundTiesToEven_error: "\<bar>of_int (roundTiesToEven y) - y\<bar> \<le> 1 / 2"
proof -
  define f where "f = \<lfloor>y\<rfloor>"
  have f: "of_int f \<le> y" "y < of_int f + 1" unfolding f_def by linarith+
  show ?thesis
    unfolding roundTiesToEven_def Let_def f_def [symmetric] using f by (auto simp: abs_if)
qed

lemma toDouble_error:
  assumes "0 < x"
  shows "\<bar>toDouble x - x\<bar> \<le> x * 2 powi (-53)"
proof -
  let ?u = "(2::rat) powi (binade x - 52)"
  have u: "0 < ?u" by simp
  have "\<bar>toDouble x - x\<bar> = \<bar>of_int (roundTiesToEven (x / ?u)) - x / ?u\<bar> * ?u"
  proof -
    have "toDouble x - x = (of_int (roundTiesToEven (x / ?u)) - x / ?u) * ?u"
      using assms u by (simp add: toDouble_def Let_def algebra_simps)
    then show ?thesis using u by (simp add: abs_mult)
  qed
  also have "\<dots> \<le> 1 / 2 * ?u"
    using roundTiesToEven_error [of "x / ?u"] u by (intro mult_right_mono) auto
  also have "\<dots> = 2 powi (binade x) * 2 powi (-53)"
  proof -
    have "(2::rat) powi (binade x - 52) = 2 powi (binade x) / 2 powi 52"
      by (rule power_int_diff) simp
    then show ?thesis by simp
  qed
  also have "\<dots> \<le> x * 2 powi (-53)"
    using binade_bounds [OF assms] by (intro mult_right_mono) auto
  finally show ?thesis .
qed

lemma toDouble_nonneg: "0 \<le> x \<Longrightarrow> 0 \<le> toDouble x"
proof (cases "x = 0")
  case True then show ?thesis by (simp add: toDouble_def)
next
  case False
  assume "0 \<le> x"
  then have x: "0 < x" using False by simp
  let ?u = "(2::rat) powi (binade x - 52)"
  have "0 \<le> x / ?u" using x by simp
  then have "0 \<le> roundTiesToEven (x / ?u)"
    by (auto simp: roundTiesToEven_def Let_def)
  then show ?thesis using False by (simp add: toDouble_def Let_def)
qed

lemma percent_error:
  fixes c t :: nat
  assumes "0 < c" "c \<le> t"
  shows "\<bar>numTimes (numDivide (of_nat c) (of_nat t)) 100 - 100 * of_nat c / of_nat t\<bar>
           \<le> 300 * 2 powi (-53)"
proof -
  let ?e = "(2::rat) powi (-53)"
  let ?q = "(of_nat c :: rat) / of_nat t"
  let ?x1 = "toDouble ?q"
  let ?x2 = "toDouble (?x1 * 100)"
  have t: "0 < t" using assms by simp
  have q: "0 < ?q" "?q \<le> 1" using assms t by simp_all
  have e: "0 < ?e" "?e \<le> 1" by simp_all
  have e1: "\<bar>?x1 - ?q\<bar> \<le> ?q * ?e" using toDouble_error [OF q(1)] .
  have x1_le: "?x1 \<le> 2" 
  proof -
    have "?x1 \<le> ?q + ?q * ?e" using e1 by linarith
    also have "\<dots> \<le> 1 + 1 * 1" using q e by (intro add_mono mult_mono) auto
    finally show ?thesis by simp
  qed
  have x1_pos: "0 < ?x1"
  proof -
    have "?q * ?e < ?q * 1" using q by (intro mult_strict_left_mono) auto
    then show ?thesis using e1 by linarith
  qed
  have e2: "\<bar>?x2 - ?x1 * 100\<bar> \<le> ?x1 * 100 * ?e"
    using toDouble_error [of "?x1 * 100"] x1_pos by simp
  have "?q * ?e \<le> 1 * ?e" using q e by (intro mult_right_mono) auto
  moreover have "?x1 * 100 * ?e \<le> 2 * 100 * ?e" using x1_le e by (intro mult_right_mono) auto
  ultimately have "\<bar>?x2 - 100 * ?q\<bar> \<le> 300 * ?e" using e1 e2 by linarith
  then show ?thesis by (simp add: numTimes_def numDivide_def)
qed

lemma percent_tenths:
  fixes c t :: nat
  assumes "0 < t" "c \<le> t" "t < 2 ^ 32"
  shows "\<bar>of_nat (nat \<lfloor>numTimes (numDivide (of_nat c) (of_nat t)) 100 * 10 + 1 / 2\<rfloor>) / 10
            - 100 * of_nat c / of_nat t\<bar> \<le> (1 / 20 :: rat)"
proof (cases "c = 0")
  case True
  then show ?thesis by (simp add: numTimes_def numDivide_def toDouble_def)
next
  case False
  then have c: "0 < c" by simp
  let ?x = "numTimes (numDivide (of_nat c) (of_nat t)) 100"
  let ?E = "1000 * (of_nat c :: rat) / of_nat t"
  define n where "n = \<lfloor>10 * ?x + 1 / 2\<rfloor>"
  have T: "0 < (of_nat t :: rat)" using assms by simp
  have tsmall: "(of_nat t :: rat) < 2 ^ 32"
    using assms(3) by (metis of_nat_less_iff of_nat_numeral of_nat_power)
  have err: "\<bar>?x - 100 * of_nat c / of_nat t\<bar> \<le> 300 * 2 powi (-53)"
    using percent_error [OF c assms(2)] .
  have z: "\<bar>10 * ?x - ?E\<bar> \<le> 3000 * 2 powi (-53)"
    using err by (simp add: abs_if split: if_splits)
  have xnn: "0 \<le> ?x"
    unfolding numTimes_def numDivide_def by (intro toDouble_nonneg mult_nonneg_nonneg) simp_all
  have n: "of_int n \<le> 10 * ?x + 1 / 2" "10 * ?x + 1 / 2 < of_int n + 1"
    unfolding n_def by linarith+
  have nnn: "0 \<le> n" unfolding n_def using xnn by simp
  have tn: "nat \<lfloor>?x * 10 + 1 / 2\<rfloor> = nat n" by (simp add: n_def mult.commute)
  have gap: "1 / of_nat t \<le> \<bar>of_int k - 2 * ?E\<bar>" if "of_int k \<noteq> 2 * ?E" for k :: int
  proof -
    have eq: "of_int k - 2 * ?E = of_int (k * int t - 2000 * int c) / of_nat t"
      using T by (simp add: field_simps)
    have "k * int t - 2000 * int c \<noteq> 0"
    proof
      assume "k * int t - 2000 * int c = 0"
      then have "of_int k - 2 * ?E = 0" using eq by simp
      then show False using that by simp
    qed
    then have "1 \<le> \<bar>k * int t - 2000 * int c\<bar>" by linarith
    then have "(1::rat) \<le> \<bar>of_int (k * int t - 2000 * int c)\<bar>"
      by (metis of_int_1_le_iff of_int_abs)
    then have "1 / (of_nat t :: rat) \<le> \<bar>of_int (k * int t - 2000 * int c)\<bar> / of_nat t"
      using T by (intro divide_right_mono) auto
    then show ?thesis using eq T by (simp add: abs_divide)
  qed
  have small: "6000 * 2 powi (-53) < 1 / (of_nat t :: rat)"
  proof -
    have "6000 * 2 powi (-53) < 1 / (2 ^ 32 :: rat)" by simp
    also have "\<dots> < 1 / of_nat t" using tsmall T by (intro divide_strict_left_mono) auto
    finally show ?thesis .
  qed
  have "\<bar>of_int n - ?E\<bar> \<le> 1 / 2"
  proof (rule ccontr)
    assume "\<not> \<bar>of_int n - ?E\<bar> \<le> 1 / 2"
    then consider "1 / 2 < of_int n - ?E" | "1 / 2 < ?E - of_int n" by linarith
    then show False
    proof cases
      case 1
      then have ne: "of_int (2 * n - 1) \<noteq> 2 * ?E" by auto
      have "\<bar>of_int (2 * n - 1) - 2 * ?E\<bar> \<le> 6000 * 2 powi (-53)"
        using 1 n(1) z by (simp add: abs_if split: if_splits)
      then show False using gap [OF ne] small by linarith
    next
      case 2
      then have ne: "of_int (2 * n + 1) \<noteq> 2 * ?E" by auto
      have "\<bar>of_int (2 * n + 1) - 2 * ?E\<bar> \<le> 6000 * 2 powi (-53)"
        using 2 n(2) z by (simp add: abs_if split: if_splits)
      then show False using gap [OF ne] small by linarith
    qed
  qed
  note half = this
  define q where "q = (of_nat c :: rat) / of_nat t"
  have "\<bar>of_int n - 1000 * q\<bar> \<le> 1 / 2" using half by (simp add: q_def)
  then have "\<bar>of_int n / 10 - 100 * q\<bar> \<le> 1 / 20" by linarith
  then have "\<bar>of_int n / 10 - 100 * of_nat c / of_nat t\<bar> \<le> (1 / 20 :: rat)"
    by (simp add: q_def)
  moreover have "(of_nat (nat n) :: rat) = of_int n" using nnn by simp
  ultimately show ?thesis unfolding tn by simp
qed

lemma digit_props:
  assumes "d < 10"
  shows "digit d \<in> set ''0123456789'' \<and> digitValue (digit d) = d"
proof -
  have "d \<in> {0, 1, 2, 3, 4, 5, 6, 7, 8, 9}" using assms by auto
  then show ?thesis by (auto simp: digit_def digitValue_def)
qed

lemma decimalValue_snoc: "decimalValue (s @ [c]) = 10 * decimalValue s + digitValue c"
  by (simp add: decimalValue_def)

lemma showNat_props:
  "showNat n \<noteq> [] \<and> set (showNat n) \<subseteq> set ''0123456789'' \<and> decimalValue (showNat n) = n"
proof (induction n rule: showNat.induct)
  case (1 n)
  show ?case
  proof (cases "n < 10")
    case True
    then have "showNat n = [digit n]" by (simp add: showNat.simps)
    then show ?thesis using digit_props [OF True] by (simp add: decimalValue_def)
  next
    case False
    then have s: "showNat n = showNat (n div 10) @ [digit (n mod 10)]"
      by (simp add: showNat.simps)
    have d: "digit (n mod 10) \<in> set ''0123456789'' \<and> digitValue (digit (n mod 10)) = n mod 10"
      by (rule digit_props) simp
    show ?thesis
      unfolding s using 1 [OF False] d by (simp add: decimalValue_snoc)
  qed
qed

lemma toFixed_1:
  "toFixed 1 x =
     showNat (nat \<lfloor>x * 10 + 1 / 2\<rfloor> div 10) @ ''.'' @ [digit (nat \<lfloor>x * 10 + 1 / 2\<rfloor> mod 10)]"
proof -
  define n where "n = nat \<lfloor>x * 10 + 1 / 2\<rfloor>"
  define m where "m = replicate (1 + 1 - length (showNat n)) (CHR ''0'') @ showNat n"
  have e: "x * 10 ^ 1 + 1 / 2 = x * 10 + 1 / 2" by simp
  have tf: "toFixed 1 x = take (length m - 1) m @ ''.'' @ drop (length m - 1) m"
    unfolding toFixed_def Let_def e m_def n_def by simp
  have "take (length m - 1) m = showNat (n div 10) \<and> drop (length m - 1) m = [digit (n mod 10)]"
  proof (cases "n < 10")
    case True
    then have "showNat n = [digit n]" "showNat (n div 10) = [digit 0]"
      by (simp_all add: showNat.simps)
    then show ?thesis using True by (simp add: m_def digit_def)
  next
    case False
    then have s: "showNat n = showNat (n div 10) @ [digit (n mod 10)]"
      by (simp add: showNat.simps)
    have "showNat (n div 10) \<noteq> []" using showNat_props by blast
    then have "1 \<le> length (showNat (n div 10))" by (cases "showNat (n div 10)") simp_all
    then show ?thesis by (simp add: m_def s)
  qed
  then show ?thesis unfolding tf n_def by simp
qed

lemma strLess_lexord: "strLess a b = ((a, b) \<in> lexord codeUnitOrder)"
  by (induction a b rule: strLess.induct) (auto simp: codeUnitOrder_def)

lemma strGeq_lexord: "strGeq d a = (d = a \<or> (a, d) \<in> lexord codeUnitOrder)"
  using strLess_total [of a d] strLess_asym [of a d] strLess_irrefl [of a]
  by (auto simp: strGeq_def strLess_lexord [symmetric])

lemma strLeq_lexord: "strLeq d a = (d = a \<or> (d, a) \<in> lexord codeUnitOrder)"
  using strLess_total [of a d] strLess_asym [of a d] strLess_irrefl [of a]
  by (auto simp: strLeq_def strLess_lexord [symmetric])

lemma beforeT_date: "CHR ''T'' \<notin> set date \<Longrightarrow> beforeT (date @ CHR ''T'' # rest) = date"
  by (induction date) (auto simp: beforeT_def)

lemma rate_rendered:
  fixes c t :: nat
  assumes "0 < t" "c \<le> t" "t < 2 ^ 32"
  shows "\<exists>whole frac.
           toFixed 1 (numTimes (numDivide (of_nat c) (of_nat t)) 100) = whole @ ''.'' @ [frac]
           \<and> whole \<noteq> [] \<and> set whole \<subseteq> set ''0123456789'' \<and> frac \<in> set ''0123456789''
           \<and> \<bar>of_nat (10 * decimalValue whole + digitValue frac) / 10
                - 100 * of_nat c / of_nat t\<bar> \<le> (1 / 20 :: rat)"
proof -
  define n where "n = nat \<lfloor>numTimes (numDivide (of_nat c) (of_nat t)) 100 * 10 + 1 / 2\<rfloor>"
  let ?whole = "showNat (n div 10)" and ?frac = "digit (n mod 10)"
  have shown: "toFixed 1 (numTimes (numDivide (of_nat c) (of_nat t)) 100) = ?whole @ ''.'' @ [?frac]"
    unfolding n_def by (rule toFixed_1)
  have w: "?whole \<noteq> [] \<and> set ?whole \<subseteq> set ''0123456789'' \<and> decimalValue ?whole = n div 10"
    by (rule showNat_props)
  have f: "?frac \<in> set ''0123456789'' \<and> digitValue ?frac = n mod 10"
    by (rule digit_props) simp
  have "10 * decimalValue ?whole + digitValue ?frac = n" using w f by simp
  then have "\<bar>of_nat (10 * decimalValue ?whole + digitValue ?frac) / 10
      - 100 * of_nat c / of_nat t\<bar> \<le> (1 / 20 :: rat)"
    using percent_tenths [OF assms] unfolding n_def by simp
  then show ?thesis using shown w f by blast
qed

lemma rate5: "toFixed 1 (numTimes (numDivide 1 5) 100) = ''20.0''"
  by code_simp

lemma rate80: "toFixed 1 (numTimes (numDivide 23 80) 100) = ''28.7''"
  by code_simp

section \<open>Snapshot load\<close>

text \<open>
  C6. \<open>loadTasks\<close> of the snapshot-file backend never rejects: for every state of the
  document it returns a collection. When the document is absent the collection is empty
  with \<open>lastUpdated\<close> the current time and nothing else happens; when reading it fails the
  error is logged and the same empty collection is returned; otherwise the stored
  collection is returned. The document itself is never changed by the load.
\<close>

theorem loadTasks_never_raises:
  "\<exists>storage w1. loadTasks rt now w = (Inr storage, w1) \<and> jsonFile w1 = jsonFile w
     \<and> (jsonFile w = Absent \<longrightarrow>
          storage = \<lparr>tasks = [], lastUpdated = toISOString rt now\<rparr> \<and> w1 = w)
     \<and> (\<forall>e. jsonFile w = Unreadable e \<longrightarrow>
          storage = \<lparr>tasks = [], lastUpdated = toISOString rt now\<rparr>
          \<and> w1 = w\<lparr>stderr := stderr w @ [''Error loading tasks: '' @ e]\<rparr>)
     \<and> (\<forall>s. jsonFile w = Stored s \<longrightarrow> storage = s \<and> w1 = w)"
  by (cases "jsonFile w") (simp_all add: loadTasks_cases)

theorem loadTasks_never_raises_witness:
  "loadTasks exampleRuntime 1736935200000 \<lparr>jsonFile = Absent, sqlite = [], stderr = []\<rparr>
     = (Inr \<lparr>tasks = [], lastUpdated = ''2025-01-15T10:00:00.000Z''\<rparr>,
        \<lparr>jsonFile = Absent, sqlite = [], stderr = []\<rparr>)
   \<and> loadTasks exampleRuntime 1736935200000
        \<lparr>jsonFile = Unreadable ''Unexpected end of JSON input'', sqlite = [], stderr = []\<rparr>
     = (Inr \<lparr>tasks = [], lastUpdated = ''2025-01-15T10:00:00.000Z''\<rparr>,
        \<lparr>jsonFile = Unreadable ''Unexpected end of JSON input'', sqlite = [],
         stderr = [''Error loading tasks: Unexpected end of JSON input'']\<rparr>)
   \<and> loadTasks exampleRuntime 1736935200000 (exampleWorld [])
     = (Inr \<lparr>tasks = [], lastUpdated = ''2025-01-01T09:00:00.000Z''\<rparr>, exampleWorld [])"
  using
    loadTasks_never_raises [of exampleRuntime 1736935200000
      "\<lparr>jsonFile = Absent, sqlite = [], stderr = []\<rparr>"]
    loadTasks_never_raises [of exampleRuntime 1736935200000
      "\<lparr>jsonFile = Unreadable ''Unexpected end of JSON input'', sqlite = [], stderr = []\<rparr>"]
    loadTasks_never_raises [of exampleRuntime 1736935200000 "exampleWorld []"]
  by (auto simp: exampleRuntime_def exampleClock_def exampleWorld_def)

section \<open>Short task ids\<close>

text \<open>
  C10. When the \<open>taskId\<close> argument is a string of fewer than 8 characters, \<open>updateTask\<close>,
  \<open>deleteTask\<close> and \<open>completeTask\<close> throw a \<open>ZodError\<close> holding the issue of the
  \<open>taskId\<close> key, and leave the whole state as it was: nothing is loaded, looked up or
  saved, so an empty or short prefix never resolves to a task.
\<close>

theorem short_taskId_rejected:
  assumes "args ''taskId'' = Some (Str p)" and "length p < 8"
    and "op \<in> {updateTask rt now, deleteTask rt now, completeTask rt now}"
  shows "\<exists>issues. op args w = (Inl (ZodError issues), w)
           \<and> too_small ''taskId'' ''Task ID must be at least 8 characters'' \<in> set issues"
proof -
  obtain issues where u: "UpdateTaskSchema args = Inl issues"
    and m: "too_small ''taskId'' ''Task ID must be at least 8 characters'' \<in> set issues"
    using UpdateTaskSchema_short [of args p] assms(1,2) by blast
  have t: "TaskIdSchema args = Inl [too_small ''taskId'' ''Task ID must be at least 8 characters'']"
    using TaskIdSchema_short [of args p] assms(1,2) by simp
  consider "op = updateTask rt now" | "op = deleteTask rt now" | "op = completeTask rt now"
    using assms(3) by blast
  then show ?thesis
  proof cases
    case 1 then show ?thesis using u m by (simp add: updateTask_def)
  next
    case 2 then show ?thesis using t by (simp add: deleteTask_def)
  next
    case 3 then show ?thesis using t by (simp add: completeTask_def)
  qed
qed

theorem short_taskId_rejected_witness:
  "updateTask exampleRuntime 1736935200000 [''taskId'' \<mapsto> Str ''abc'', ''status'' \<mapsto> Str ''completed'']
       (exampleWorld [exampleTask ''abcdefgh-0001'' medium None pending None])
     = (Inl (ZodError [too_small ''taskId'' ''Task ID must be at least 8 characters'']),
        exampleWorld [exampleTask ''abcdefgh-0001'' medium None pending None])
   \<and> deleteTask exampleRuntime 1736935200000 [''taskId'' \<mapsto> Str '''']
       (exampleWorld [exampleTask ''abcdefgh-0001'' medium None pending None])
     = (Inl (ZodError [too_small ''taskId'' ''Task ID must be at least 8 characters'']),
        exampleWorld [exampleTask ''abcdefgh-0001'' medium None pending None])
   \<and> completeTask exampleRuntime 1736935200000 [''taskId'' \<mapsto> Str ''abcdefg'']
       (exampleWorld [exampleTask ''abcdefgh-0001'' medium None pending None])
     = (Inl (ZodError [too_small ''taskId'' ''Task ID must be at least 8 characters'']),
        exampleWorld [exampleTask ''abcdefgh-0001'' medium None pending None])"
  using
    short_taskId_rejected [of "[''taskId'' \<mapsto> Str ''abc'', ''status'' \<mapsto> Str ''completed'']" "''abc''"
      "updateTask exampleRuntime 1736935200000" exampleRuntime 1736935200000
      "exampleWorld [exampleTask ''abcdefgh-0001'' medium None pending None]"]
    short_taskId_rejected [of "[''taskId'' \<mapsto> Str '''']" "''''"
      "deleteTask exampleRuntime 1736935200000" exampleRuntime 1736935200000
      "exampleWorld [exampleTask ''abcdefgh-0001'' medium None pending None]"]
    short_taskId_rejected [of "[''taskId'' \<mapsto> Str ''abcdefg'']" "''abcdefg''"
      "completeTask exampleRuntime 1736935200000" exampleRuntime 1736935200000
      "exampleWorld [exampleTask ''abcdefgh-0001'' medium None pending None]"]
  by (simp add: updateTask_def deleteTask_def completeTask_def UpdateTaskSchema_def
      TaskIdSchema_def zStringMin_def zOptional_def zString_def zEnum_def statuses_def andAlso_def)

section \<open>Status and completion time in an update\<close>

text \<open>
  C1. For a valid update request whose prefix resolves to the task at index \<open>i\<close> of the
  loaded collection, the collection saved has the same length and its task at \<open>i\<close> has:
  \<open>completedAt\<close> stamped with the current time when the request sets the status to
  \<open>completed\<close> and the task had no \<open>completedAt\<close>; no \<open>completedAt\<close> when the request sets
  any other status; the \<open>completedAt\<close> it had when the request has no status, whatever
  other fields it updates.
\<close>

theorem updateTask_completedAt:
  assumes "UpdateTaskSchema args = Inr v"
    and "loadTasks rt now w = (Inr storage, w1)"
    and "findIndex (\<lambda>t. startsWith (task_id t) (update_taskId v)) (tasks storage) = int i"
  shows "\<exists>storage'. snd (updateTask rt now args w) = w1\<lparr>jsonFile := Stored storage'\<rparr>
     \<and> length (tasks storage') = length (tasks storage)
     \<and> (update_status v = Some completed \<and> completedAt (tasks storage ! i) = None \<longrightarrow>
          completedAt (tasks storage' ! i) = Some (toISOString rt now))
     \<and> (\<forall>s. update_status v = Some s \<and> s \<noteq> completed \<longrightarrow>
          completedAt (tasks storage' ! i) = None)
     \<and> (update_status v = None \<longrightarrow>
          completedAt (tasks storage' ! i) = completedAt (tasks storage ! i))"
proof -
  have i: "i < length (tasks storage)" using findIndex_found [OF assms(3)] by simp
  show ?thesis
    unfolding updateTask_found [OF assms] saveTasks_def
    using i by (auto simp: applyUpdate_completedAt truthy_def)
qed

theorem updateTask_completedAt_witness:
  "(\<exists>storage'.
      snd (updateTask exampleRuntime 1736935200000
             [''taskId'' \<mapsto> Str ''abcdefgh'', ''status'' \<mapsto> Str ''completed'']
             (exampleWorld [exampleTask ''abcdefgh-0001'' medium None pending None]))
        = (exampleWorld [exampleTask ''abcdefgh-0001'' medium None pending None])
            \<lparr>jsonFile := Stored storage'\<rparr>
      \<and> completedAt (tasks storage' ! 0) = Some ''2025-01-15T10:00:00.000Z'')
   \<and> (\<exists>storage'.
      snd (updateTask exampleRuntime 1736935200000
             [''taskId'' \<mapsto> Str ''abcdefgh'', ''status'' \<mapsto> Str ''in_progress'']
             (exampleWorld [exampleTask ''abcdefgh-0001'' medium None completed
                              (Some ''2025-01-02T08:00:00.000Z'')]))
        = (exampleWorld [exampleTask ''abcdefgh-0001'' medium None completed
                              (Some ''2025-01-02T08:00:00.000Z'')])
            \<lparr>jsonFile := Stored storage'\<rparr>
      \<and> completedAt (tasks storage' ! 0) = None)
   \<and> (\<exists>storage'.
      snd (updateTask exampleRuntime 1736935200000
             [''taskId'' \<mapsto> Str ''abcdefgh'', ''title'' \<mapsto> Str ''Renamed'']
             (exampleWorld [exampleTask ''abcdefgh-0001'' medium None completed
                              (Some ''2025-01-02T08:00:00.000Z'')]))
        = (exampleWorld [exampleTask ''abcdefgh-0001'' medium None completed
                              (Some ''2025-01-02T08:00:00.000Z'')])
            \<lparr>jsonFile := Stored storage'\<rparr>
      \<and> completedAt (tasks storage' ! 0) = Some ''2025-01-02T08:00:00.000Z'')"
proof -
  let ?rt = exampleRuntime and ?now = "1736935200000 :: int"
  let ?done = "exampleTask ''abcdefgh-0001'' medium None completed (Some ''2025-01-02T08:00:00.000Z'')"
  let ?open = "exampleTask ''abcdefgh-0001'' medium None pending None"
  let ?v = "\<lambda>t s. \<lparr>update_taskId = ''abcdefgh'', update_title = t, update_description = None,
      update_priority = None, update_category = None, update_dueDate = None, update_status = s\<rparr>"
  have schema:
    "UpdateTaskSchema [''taskId'' \<mapsto> Str ''abcdefgh'', ''status'' \<mapsto> Str ''completed'']
       = Inr (?v None (Some completed))"
    "UpdateTaskSchema [''taskId'' \<mapsto> Str ''abcdefgh'', ''status'' \<mapsto> Str ''in_progress'']
       = Inr (?v None (Some in_progress))"
    "UpdateTaskSchema [''taskId'' \<mapsto> Str ''abcdefgh'', ''title'' \<mapsto> Str ''Renamed'']
       = Inr (?v (Some ''Renamed'') None)"
    by (simp_all add: UpdateTaskSchema_def zStringMin_def zOptional_def zString_def zEnum_def
        zStringDate_def statuses_def priorities_def andAlso_def)
  have load: "loadTasks ?rt ?now (exampleWorld ts)
      = (Inr \<lparr>tasks = ts, lastUpdated = ''2025-01-01T09:00:00.000Z''\<rparr>, exampleWorld ts)" for ts
    by (simp add: loadTasks_cases exampleWorld_def)
  have idx: "findIndex (\<lambda>t. startsWith (task_id t) ''abcdefgh'') [exampleTask ''abcdefgh-0001'' p d s c] = int 0"
    for p d s c
    by (simp add: findIndex_def exampleTask_def)
  have a: "findIndex (\<lambda>t. startsWith (task_id t) (update_taskId (?v x y)))
             (tasks \<lparr>tasks = [exampleTask ''abcdefgh-0001'' p d s c], lastUpdated = l\<rparr>) = int 0"
    for x y p d s c l
    using idx [of p d s c] by simp
  show ?thesis
    using updateTask_completedAt [OF schema(1) load [of "[?open]"] a]
      updateTask_completedAt [OF schema(2) load [of "[?done]"] a]
      updateTask_completedAt [OF schema(3) load [of "[?done]"] a]
    by (auto simp: exampleTask_def exampleRuntime_def exampleClock_def)
qed

section \<open>Clearing completed tasks\<close>

text \<open>
  C8. \<open>clearCompleted\<close> saves exactly the tasks of the loaded collection whose status is
  not \<open>completed\<close>, in their order, and answers with the number of completed tasks removed
  and the number of tasks remaining, behind the decoration of the message: on three
  completed and two pending tasks it leaves the two and answers "Cleared 3 completed
  task(s). 2 active task(s) remaining."; when no task is completed it answers "No
  completed tasks to clear.".
\<close>

theorem clearCompleted_removes_completed:
  assumes "loadTasks rt now w = (Inr storage, w1)"
  shows "clearCompleted rt now w =
     (Inr (if countStatus completed (tasks storage) > 0
           then emoji_broom @ '' Cleared '' @ showNat (countStatus completed (tasks storage))
                  @ '' completed task(s). ''
                  @ showNat (length (filter (\<lambda>t. status t \<noteq> completed) (tasks storage)))
                  @ '' active task(s) remaining.''
           else ''No completed tasks to clear.''),
      w1\<lparr>jsonFile := Stored \<lparr>tasks = filter (\<lambda>t. status t \<noteq> completed) (tasks storage),
                               lastUpdated = toISOString rt now\<rparr>\<rparr>)"
  using assms by (rule clearCompleted_result)

theorem clearCompleted_removes_completed_witness:
  "clearCompleted exampleRuntime 1736935200000
       (exampleWorld
          [exampleTask ''aaaaaaaa-0001'' high None completed (Some ''2025-01-02T08:00:00.000Z''),
           exampleTask ''bbbbbbbb-0002'' medium None pending None,
           exampleTask ''cccccccc-0003'' low None completed (Some ''2025-01-03T08:00:00.000Z''),
           exampleTask ''dddddddd-0004'' medium None pending None,
           exampleTask ''eeeeeeee-0005'' medium None completed (Some ''2025-01-04T08:00:00.000Z'')])
     = (Inr (emoji_broom @ '' Cleared 3 completed task(s). 2 active task(s) remaining.''),
        \<lparr>jsonFile = Stored
           \<lparr>tasks = [exampleTask ''bbbbbbbb-0002'' medium None pending None,
                     exampleTask ''dddddddd-0004'' medium None pending None],
            lastUpdated = ''2025-01-15T10:00:00.000Z''\<rparr>,
         sqlite = [], stderr = []\<rparr>)
   \<and> clearCompleted exampleRuntime 1736935200000
       (exampleWorld [exampleTask ''bbbbbbbb-0002'' medium None pending None])
     = (Inr ''No completed tasks to clear.'',
        \<lparr>jsonFile = Stored
           \<lparr>tasks = [exampleTask ''bbbbbbbb-0002'' medium None pending None],
            lastUpdated = ''2025-01-15T10:00:00.000Z''\<rparr>,
         sqlite = [], stderr = []\<rparr>)"
proof -
  have load: "loadTasks exampleRuntime 1736935200000 (exampleWorld ts)
      = (Inr \<lparr>tasks = ts, lastUpdated = ''2025-01-01T09:00:00.000Z''\<rparr>, exampleWorld ts)" for ts
    by (simp add: loadTasks_cases exampleWorld_def)
  show ?thesis
    unfolding clearCompleted_removes_completed [OF load]
    by (simp add: countStatus_def exampleTask_def exampleWorld_def exampleRuntime_def
        exampleClock_def showNat.simps digit_def)
qed

section \<open>Prefix lookup\<close>

text \<open>
  C4. For a \<open>taskId\<close> argument \<open>p\<close> of at least 8 characters (and, for the update, a request
  that is valid in its other fields): when no task of the loaded collection has an id
  that starts with \<open>p\<close>, \<open>updateTask\<close>, \<open>deleteTask\<close> and \<open>completeTask\<close> return the
  not-found text as a normal result and save nothing, the document and the table being
  those before the call; when the task at index \<open>i\<close> is the first whose id starts with \<open>p\<close>,
  each operation acts on that task, whatever tasks after it share the prefix: the update
  saves the collection with that task updated, the delete saves it without that task,
  the completion saves it with that task completed.
\<close>

theorem prefix_resolves_first_match:
  assumes "args ''taskId'' = Some (Str p)" and "8 \<le> length p"
    and "UpdateTaskSchema args = Inr v"
    and "loadTasks rt now w = (Inr storage, w1)"
  shows
    "((\<forall>t\<in>set (tasks storage). \<not> startsWith (task_id t) p) \<longrightarrow>
        updateTask rt now args w = (Inr (notFound p), w1)
        \<and> deleteTask rt now args w = (Inr (notFound p), w1)
        \<and> completeTask rt now args w = (Inr (notFound p), w1)
        \<and> jsonFile w1 = jsonFile w \<and> sqlite w1 = sqlite w)
     \<and> (\<forall>i<length (tasks storage).
          startsWith (task_id (tasks storage ! i)) p
          \<and> (\<forall>j<i. \<not> startsWith (task_id (tasks storage ! j)) p) \<longrightarrow>
          snd (updateTask rt now args w)
            = saveTasks rt now
                (storage\<lparr>tasks := (tasks storage)
                   [i := applyUpdate rt now v (tasks storage ! i)]\<rparr>) w1
          \<and> snd (deleteTask rt now args w)
            = saveTasks rt now
                (storage\<lparr>tasks := take i (tasks storage) @ drop (Suc i) (tasks storage)\<rparr>) w1
          \<and> snd (completeTask rt now args w)
            = saveTasks rt now
                (storage\<lparr>tasks := (tasks storage)
                   [i := (tasks storage ! i)\<lparr>status := completed,
                            completedAt := Some (toISOString rt now)\<rparr>]\<rparr>) w1)"
proof -
  have p: "update_taskId v = p" using UpdateTaskSchema_taskId [OF assms(3)] assms(1) by simp
  have t: "TaskIdSchema args = Inr p" using TaskIdSchema_ok assms(1,2) by simp
  have nf: "updateTask rt now args w = (Inr (notFound p), w1)
        \<and> deleteTask rt now args w = (Inr (notFound p), w1)
        \<and> completeTask rt now args w = (Inr (notFound p), w1)
        \<and> jsonFile w1 = jsonFile w \<and> sqlite w1 = sqlite w"
    if "\<forall>t\<in>set (tasks storage). \<not> startsWith (task_id t) p"
    using not_found_results [OF assms(4) that] assms(3) p t loadTasks_jsonFile [OF assms(4)]
    by simp
  have fd: "snd (updateTask rt now args w)
            = saveTasks rt now
                (storage\<lparr>tasks := (tasks storage)
                   [i := applyUpdate rt now v (tasks storage ! i)]\<rparr>) w1
          \<and> snd (deleteTask rt now args w)
            = saveTasks rt now
                (storage\<lparr>tasks := take i (tasks storage) @ drop (Suc i) (tasks storage)\<rparr>) w1
          \<and> snd (completeTask rt now args w)
            = saveTasks rt now
                (storage\<lparr>tasks := (tasks storage)
                   [i := (tasks storage ! i)\<lparr>status := completed,
                            completedAt := Some (toISOString rt now)\<rparr>]\<rparr>) w1"
    if i: "i < length (tasks storage)" "startsWith (task_id (tasks storage ! i)) p"
      and first: "\<forall>j<i. \<not> startsWith (task_id (tasks storage ! j)) p" for i
  proof -
    have idx: "findIndex (\<lambda>t. startsWith (task_id t) p) (tasks storage) = int i"
      using i first by (intro findIndex_first) auto
    show ?thesis
      using updateTask_found [OF assms(3,4), of i] idx p deleteTask_found [OF t assms(4) idx]
        completeTask_found [OF t assms(4) i] first
      by simp
  qed
  show ?thesis using nf fd by blast
qed

theorem prefix_resolves_first_match_witness:
  "jsonFile (snd (updateTask exampleRuntime 1736935200000
       [''taskId'' \<mapsto> Str ''abcdefgh'', ''title'' \<mapsto> Str ''Renamed'']
       (exampleWorld
          [exampleTask ''zzzzzzzz-0000'' low None pending None,
           exampleTask ''abcdefgh-0001'' medium None pending None,
           exampleTask ''abcdefgh-0002'' high None pending None])))
     = Stored
         \<lparr>tasks = [exampleTask ''zzzzzzzz-0000'' low None pending None,
                   (exampleTask ''abcdefgh-0001'' medium None pending None)\<lparr>title := ''Renamed''\<rparr>,
                   exampleTask ''abcdefgh-0002'' high None pending None],
          lastUpdated = ''2025-01-15T10:00:00.000Z''\<rparr>
   \<and> jsonFile (snd (deleteTask exampleRuntime 1736935200000
       [''taskId'' \<mapsto> Str ''abcdefgh'', ''title'' \<mapsto> Str ''Renamed'']
       (exampleWorld
          [exampleTask ''zzzzzzzz-0000'' low None pending None,
           exampleTask ''abcdefgh-0001'' medium None pending None,
           exampleTask ''abcdefgh-0002'' high None pending None])))
     = Stored
         \<lparr>tasks = [exampleTask ''zzzzzzzz-0000'' low None pending None,
                   exampleTask ''abcdefgh-0002'' high None pending None],
          lastUpdated = ''2025-01-15T10:00:00.000Z''\<rparr>
   \<and> jsonFile (snd (completeTask exampleRuntime 1736935200000
       [''taskId'' \<mapsto> Str ''abcdefgh'', ''title'' \<mapsto> Str ''Renamed'']
       (exampleWorld
          [exampleTask ''zzzzzzzz-0000'' low None pending None,
           exampleTask ''abcdefgh-0001'' medium None pending None,
           exampleTask ''abcdefgh-0002'' high None pending None])))
     = Stored
         \<lparr>tasks = [exampleTask ''zzzzzzzz-0000'' low None pending None,
                   exampleTask ''abcdefgh-0001'' medium None completed
                     (Some ''2025-01-15T10:00:00.000Z''),
                   exampleTask ''abcdefgh-0002'' high None pending None],
          lastUpdated = ''2025-01-15T10:00:00.000Z''\<rparr>
   \<and> deleteTask exampleRuntime 1736935200000 [''taskId'' \<mapsto> Str ''nomatch0'']
       (exampleWorld
          [exampleTask ''zzzzzzzz-0000'' low None pending None,
           exampleTask ''abcdefgh-0001'' medium None pending None,
           exampleTask ''abcdefgh-0002'' high None pending None])
     = (Inr (notFound ''nomatch0''),
        exampleWorld
          [exampleTask ''zzzzzzzz-0000'' low None pending None,
           exampleTask ''abcdefgh-0001'' medium None pending None,
           exampleTask ''abcdefgh-0002'' high None pending None])"
proof -
  let ?ts = "[exampleTask ''zzzzzzzz-0000'' low None pending None,
              exampleTask ''abcdefgh-0001'' medium None pending None,
              exampleTask ''abcdefgh-0002'' high None pending None]"
  let ?st = "\<lparr>tasks = ?ts, lastUpdated = ''2025-01-01T09:00:00.000Z''\<rparr>"
  let ?v = "\<lambda>p t. \<lparr>update_taskId = p, update_title = t, update_description = None,
      update_priority = None, update_category = None, update_dueDate = None,
      update_status = None\<rparr>"
  have schema:
    "UpdateTaskSchema [''taskId'' \<mapsto> Str ''abcdefgh'', ''title'' \<mapsto> Str ''Renamed'']
       = Inr (?v ''abcdefgh'' (Some ''Renamed''))"
    "UpdateTaskSchema [''taskId'' \<mapsto> Str ''nomatch0''] = Inr (?v ''nomatch0'' None)"
    by (simp_all add: UpdateTaskSchema_def zStringMin_def zOptional_def zString_def andAlso_def)
  have load: "loadTasks exampleRuntime 1736935200000 (exampleWorld ?ts) = (Inr ?st, exampleWorld ?ts)"
    by (simp add: loadTasks_cases exampleWorld_def)
  have found:
    "(1::nat) < length (tasks ?st)"
    "startsWith (task_id (tasks ?st ! 1)) ''abcdefgh''
       \<and> (\<forall>j<1. \<not> startsWith (task_id (tasks ?st ! j)) ''abcdefgh'')"
    by (simp_all add: exampleTask_def)
  have none: "\<forall>t\<in>set (tasks ?st). \<not> startsWith (task_id t) ''nomatch0''"
    by (simp add: exampleTask_def)
  have a: "[''taskId'' \<mapsto> Str ''abcdefgh'', ''title'' \<mapsto> Str ''Renamed''] ''taskId''
             = Some (Str ''abcdefgh'')"
    and b: "[''taskId'' \<mapsto> Str ''nomatch0''] ''taskId'' = Some (Str ''nomatch0'')"
    and len: "8 \<le> length ''abcdefgh''" "8 \<le> length ''nomatch0''"
    by simp_all
  note hit = prefix_resolves_first_match [OF a len(1) schema(1) load, THEN conjunct2,
      THEN spec [where x = "1::nat"], THEN mp, OF found(1), THEN mp, OF found(2)]
  note miss = prefix_resolves_first_match [OF b len(2) schema(2) load, THEN conjunct1,
      THEN mp, OF none]
  show ?thesis
    using hit miss
    by (simp add: saveTasks_def applyUpdate_def exampleTask_def exampleWorld_def
        exampleRuntime_def exampleClock_def)
qed

section \<open>Completion time and status\<close>

text \<open>
  C7. If every task of the loaded collection has a \<open>completedAt\<close> exactly when its status
  is \<open>completed\<close>, then so has every task of the collection loaded after any of the eight
  operations. The operations that only read (list, search, stats) leave the collection as
  it was, and delete and clear-completed leave only tasks that were in it, unchanged; a
  created task is pending without \<open>completedAt\<close>, a completed one has both, and an update
  keeps \<open>completedAt\<close> in step with the status it sets.
\<close>

theorem completedAt_iff_completed_preserved:
  assumes "loadTasks rt now w = (Inr storage, w1)"
    and "\<forall>t\<in>set (tasks storage). consistent t"
    and "op \<in> {createTask rt now uuid args, listTasks rt now args, updateTask rt now args,
                deleteTask rt now args, completeTask rt now args, searchTasks rt now args,
                getTaskStats rt now, clearCompleted rt now}"
    and "loadTasks rt later (snd (op w)) = (Inr storage', w2)"
  shows "(\<forall>t\<in>set (tasks storage'). consistent t)
     \<and> (op \<in> {listTasks rt now args, searchTasks rt now args, getTaskStats rt now} \<longrightarrow>
          tasks storage' = tasks storage)
     \<and> (op \<in> {deleteTask rt now args, clearCompleted rt now} \<longrightarrow>
          set (tasks storage') \<subseteq> set (tasks storage))"
proof -
  note load = assms(1) and inv = assms(2) and after = assms(4)
  have same: "tasks storage' = tasks storage" if "jsonFile (snd (op w)) = jsonFile w"
    using reload_unchanged [OF load after that] .
  have stored: "tasks storage' = ts" if "jsonFile (snd (op w)) = Stored \<lparr>tasks = ts, lastUpdated = l\<rparr>"
    for ts l
    using reload_stored [OF after that] .
  have create: "\<forall>t\<in>set (tasks storage'). consistent t" if "op = createTask rt now uuid args"
    using createTask_outcome [OF load, of uuid args] same stored inv that
    by (auto simp: consistent_def)
  have update: "\<forall>t\<in>set (tasks storage'). consistent t" if op: "op = updateTask rt now args"
  proof -
    from updateTask_outcome [OF load, of args] show ?thesis
    proof
      assume "jsonFile (snd (updateTask rt now args w)) = jsonFile w"
      then show ?thesis using same op inv by simp
    next
      assume "\<exists>i v l. i < length (tasks storage)
           \<and> jsonFile (snd (updateTask rt now args w))
               = Stored \<lparr>tasks = (tasks storage)[i := applyUpdate rt now v (tasks storage ! i)],
                         lastUpdated = l\<rparr>"
      then obtain i v l where i: "i < length (tasks storage)"
        and st: "jsonFile (snd (updateTask rt now args w))
               = Stored \<lparr>tasks = (tasks storage)[i := applyUpdate rt now v (tasks storage ! i)],
                         lastUpdated = l\<rparr>"
        by blast
      have eq: "tasks storage' = (tasks storage)[i := applyUpdate rt now v (tasks storage ! i)]"
        using stored st op by simp
      have "consistent (applyUpdate rt now v (tasks storage ! i))"
        using inv i by (intro consistent_applyUpdate) simp
      then show ?thesis
        unfolding eq using inv set_update_subset_insert [of "tasks storage" i] by blast
    qed
  qed
  have delete: "set (tasks storage') \<subseteq> set (tasks storage)" if op: "op = deleteTask rt now args"
  proof -
    from deleteTask_outcome [OF load, of args] show ?thesis
    proof
      assume "jsonFile (snd (deleteTask rt now args w)) = jsonFile w"
      then show ?thesis using same op by simp
    next
      assume "\<exists>i l. jsonFile (snd (deleteTask rt now args w))
               = Stored \<lparr>tasks = take i (tasks storage) @ drop (Suc i) (tasks storage),
                         lastUpdated = l\<rparr>"
      then obtain i l where "jsonFile (snd (deleteTask rt now args w))
               = Stored \<lparr>tasks = take i (tasks storage) @ drop (Suc i) (tasks storage),
                         lastUpdated = l\<rparr>"
        by blast
      then have "tasks storage' = take i (tasks storage) @ drop (Suc i) (tasks storage)"
        using stored op by simp
      then show ?thesis
        using set_take_subset [of i "tasks storage"] set_drop_subset [of "Suc i" "tasks storage"]
        by auto
    qed
  qed
  have complete: "\<forall>t\<in>set (tasks storage'). consistent t" if op: "op = completeTask rt now args"
  proof -
    from completeTask_outcome [OF load, of args] show ?thesis
    proof
      assume "jsonFile (snd (completeTask rt now args w)) = jsonFile w"
      then show ?thesis using same op inv by simp
    next
      assume "\<exists>ts t l. jsonFile (snd (completeTask rt now args w)) = Stored \<lparr>tasks = ts, lastUpdated = l\<rparr>
           \<and> set ts \<subseteq> insert t (set (tasks storage))
           \<and> status t = completed \<and> completedAt t = Some (toISOString rt now)"
      then obtain ts t l where
        st: "jsonFile (snd (completeTask rt now args w)) = Stored \<lparr>tasks = ts, lastUpdated = l\<rparr>"
        and sub: "set ts \<subseteq> insert t (set (tasks storage))"
        and t: "status t = completed" "completedAt t = Some (toISOString rt now)"
        by blast
      have "tasks storage' = ts" using stored st op by simp
      moreover have "consistent t" using t by (simp add: consistent_def)
      ultimately show ?thesis using sub inv by blast
    qed
  qed
  have clear: "set (tasks storage') \<subseteq> set (tasks storage)" if op: "op = clearCompleted rt now"
  proof -
    have "jsonFile (snd (clearCompleted rt now w))
        = Stored \<lparr>tasks = filter (\<lambda>t. status t \<noteq> completed) (tasks storage),
                  lastUpdated = toISOString rt now\<rparr>"
      by (simp add: clearCompleted_result [OF load])
    then have "tasks storage' = filter (\<lambda>t. status t \<noteq> completed) (tasks storage)"
      using stored op by simp
    then show ?thesis by auto
  qed
  have readers: "tasks storage' = tasks storage"
    if "op \<in> {listTasks rt now args, searchTasks rt now args, getTaskStats rt now}"
    using that same readers_keep_document by auto
  have "\<forall>t\<in>set (tasks storage'). consistent t"
    using assms(3) create update delete complete clear readers inv by auto
  then show ?thesis using delete clear readers by blast
qed

theorem completedAt_iff_completed_preserved_witness:
  "list_all consistent
       [exampleTask ''abcdefgh-0001'' medium None pending None,
              exampleTask ''ijklmnop-0002'' high None completed (Some ''2025-01-02T08:00:00.000Z'')]
   \<and> tasks (projr (fst (loadTasks exampleRuntime 1737540000000
        (snd (completeTask exampleRuntime 1736935200000 [''taskId'' \<mapsto> Str ''abcdefgh'']
           (exampleWorld
              [exampleTask ''abcdefgh-0001'' medium None pending None,
               exampleTask ''ijklmnop-0002'' high None completed
                 (Some ''2025-01-02T08:00:00.000Z'')]))))))
       = [exampleTask ''abcdefgh-0001'' medium None completed (Some ''2025-01-15T10:00:00.000Z''),
          exampleTask ''ijklmnop-0002'' high None completed (Some ''2025-01-02T08:00:00.000Z'')]
   \<and> list_all consistent
       [exampleTask ''abcdefgh-0001'' medium None completed
                (Some ''2025-01-15T10:00:00.000Z''),
              exampleTask ''ijklmnop-0002'' high None completed (Some ''2025-01-02T08:00:00.000Z'')]
   \<and> tasks (projr (fst (loadTasks exampleRuntime 1737540000000
        (snd (updateTask exampleRuntime 1736935200000
           [''taskId'' \<mapsto> Str ''ijklmnop'', ''status'' \<mapsto> Str ''pending'']
           (exampleWorld
              [exampleTask ''abcdefgh-0001'' medium None pending None,
               exampleTask ''ijklmnop-0002'' high None completed
                 (Some ''2025-01-02T08:00:00.000Z'')]))))))
       = [exampleTask ''abcdefgh-0001'' medium None pending None,
          exampleTask ''ijklmnop-0002'' high None pending None]
   \<and> list_all consistent
       [exampleTask ''abcdefgh-0001'' medium None pending None,
              exampleTask ''ijklmnop-0002'' high None pending None]
   \<and> tasks (projr (fst (loadTasks exampleRuntime 1737540000000
        (snd (clearCompleted exampleRuntime 1736935200000
           (exampleWorld
              [exampleTask ''abcdefgh-0001'' medium None pending None,
               exampleTask ''ijklmnop-0002'' high None completed
                 (Some ''2025-01-02T08:00:00.000Z'')]))))))
       = [exampleTask ''abcdefgh-0001'' medium None pending None]"
proof -
  let ?rt = exampleRuntime and ?now = "1736935200000 :: int" and ?later = "1737540000000 :: int"
  let ?a = "exampleTask ''abcdefgh-0001'' medium None pending None"
  let ?b = "exampleTask ''ijklmnop-0002'' high None completed (Some ''2025-01-02T08:00:00.000Z'')"
  let ?st = "\<lparr>tasks = [?a, ?b], lastUpdated = ''2025-01-01T09:00:00.000Z''\<rparr>"
  let ?w = "exampleWorld [?a, ?b]"
  let ?c = "[''taskId'' \<mapsto> Str ''abcdefgh'']"
  let ?u = "[''taskId'' \<mapsto> Str ''ijklmnop'', ''status'' \<mapsto> Str ''pending'']"
  have load: "loadTasks ?rt ?now ?w = (Inr ?st, ?w)"
    by (simp add: loadTasks_cases exampleWorld_def)
  have inv: "\<forall>t\<in>set (tasks ?st). consistent t"
    by (simp add: consistent_def exampleTask_def)
  have in_c: "completeTask ?rt ?now ?c \<in> {createTask ?rt ?now ''uuid'' ?c, listTasks ?rt ?now ?c,
        updateTask ?rt ?now ?c, deleteTask ?rt ?now ?c, completeTask ?rt ?now ?c,
        searchTasks ?rt ?now ?c, getTaskStats ?rt ?now, clearCompleted ?rt ?now}"
    and in_u: "updateTask ?rt ?now ?u \<in> {createTask ?rt ?now ''uuid'' ?u, listTasks ?rt ?now ?u,
        updateTask ?rt ?now ?u, deleteTask ?rt ?now ?u, completeTask ?rt ?now ?u,
        searchTasks ?rt ?now ?u, getTaskStats ?rt ?now, clearCompleted ?rt ?now}"
    and in_x: "clearCompleted ?rt ?now \<in> {createTask ?rt ?now ''uuid'' ?c, listTasks ?rt ?now ?c,
        updateTask ?rt ?now ?c, deleteTask ?rt ?now ?c, completeTask ?rt ?now ?c,
        searchTasks ?rt ?now ?c, getTaskStats ?rt ?now, clearCompleted ?rt ?now}"
    by simp_all
  have after_c: "loadTasks ?rt ?later (snd (completeTask ?rt ?now ?c ?w))
      = (Inr \<lparr>tasks = [exampleTask ''abcdefgh-0001'' medium None completed
                          (Some ''2025-01-15T10:00:00.000Z''), ?b],
               lastUpdated = ''2025-01-15T10:00:00.000Z''\<rparr>,
         snd (completeTask ?rt ?now ?c ?w))"
    by (simp add: completeTask_def TaskIdSchema_def zStringMin_def loadTasks_cases Let_def
        saveTasks_def exampleWorld_def exampleTask_def exampleRuntime_def exampleClock_def)
  have after_u: "loadTasks ?rt ?later (snd (updateTask ?rt ?now ?u ?w))
      = (Inr \<lparr>tasks = [?a, exampleTask ''ijklmnop-0002'' high None pending None],
               lastUpdated = ''2025-01-15T10:00:00.000Z''\<rparr>,
         snd (updateTask ?rt ?now ?u ?w))"
    by (simp add: updateTask_def UpdateTaskSchema_def zStringMin_def zOptional_def zString_def
        zEnum_def zStringDate_def statuses_def priorities_def andAlso_def findIndex_def
        applyUpdate_def loadTasks_cases Let_def saveTasks_def exampleWorld_def exampleTask_def
        exampleRuntime_def exampleClock_def)
  have after_x: "loadTasks ?rt ?later (snd (clearCompleted ?rt ?now ?w))
      = (Inr \<lparr>tasks = [?a], lastUpdated = ''2025-01-15T10:00:00.000Z''\<rparr>,
         snd (clearCompleted ?rt ?now ?w))"
    by (simp add: clearCompleted_def loadTasks_cases Let_def saveTasks_def exampleWorld_def
        exampleTask_def exampleRuntime_def exampleClock_def)
  show ?thesis
    using inv
      completedAt_iff_completed_preserved [OF load inv in_c after_c]
      completedAt_iff_completed_preserved [OF load inv in_u after_u]
      completedAt_iff_completed_preserved [OF load inv in_x after_x]
    by (simp add: after_c after_u after_x)
qed

section \<open>Saving to the table\<close>

text \<open>
  C3. For every table and every collection given to \<open>saveTasks\<close> of the indexed-table
  backend: for an id that no task of the collection has, the rows of the table with that
  id are afterwards the rows there were, each with the fields it had, so no row absent
  from the input is deleted; for the id of a task of the collection the table afterwards
  holds exactly one row with it, the row written for the last task of the collection with
  that id (insert or replace on the primary key). The document of the other backend is not
  touched.
\<close>

theorem db_saveTasks_upserts_keeps_others:
  "(\<forall>k. k \<notin> task_id ` set (tasks storage) \<longrightarrow>
        filter (\<lambda>r. task_id r = k) (sqlite (db_saveTasks storage w))
          = filter (\<lambda>r. task_id r = k) (sqlite w))
   \<and> (\<forall>t\<in>set (tasks storage).
        filter (\<lambda>r. task_id r = task_id t) (sqlite (db_saveTasks storage w))
          = [toRow (last (filter (\<lambda>u. task_id u = task_id t) (tasks storage)))])
   \<and> jsonFile (db_saveTasks storage w) = jsonFile w"
  by (simp add: db_saveTasks_def filter_runAll_other filter_runAll_same)

theorem db_saveTasks_upserts_keeps_others_witness:
  "sqlite (db_saveTasks
      \<lparr>tasks = [exampleTask ''bbbbbbbb-0002'' high (Some ''2025-02-01'') in_progress None,
                (exampleTask ''cccccccc-0003'' low None pending None)\<lparr>description := Some ''''\<rparr>],
       lastUpdated = ''2025-01-01T09:00:00.000Z''\<rparr>
      \<lparr>jsonFile = Absent,
       sqlite = [exampleTask ''aaaaaaaa-0001'' medium None pending None,
                 exampleTask ''bbbbbbbb-0002'' medium None pending None],
       stderr = []\<rparr>)
     = [exampleTask ''aaaaaaaa-0001'' medium None pending None,
        exampleTask ''bbbbbbbb-0002'' high (Some ''2025-02-01'') in_progress None,
        exampleTask ''cccccccc-0003'' low None pending None]
   \<and> filter (\<lambda>r. task_id r = ''bbbbbbbb-0002'')
       (sqlite (db_saveTasks
          \<lparr>tasks = [exampleTask ''bbbbbbbb-0002'' high (Some ''2025-02-01'') in_progress None,
                    (exampleTask ''cccccccc-0003'' low None pending None)\<lparr>description := Some ''''\<rparr>],
           lastUpdated = ''2025-01-01T09:00:00.000Z''\<rparr>
          \<lparr>jsonFile = Absent,
           sqlite = [exampleTask ''aaaaaaaa-0001'' medium None pending None,
                     exampleTask ''bbbbbbbb-0002'' medium None pending None],
           stderr = []\<rparr>))
     = [exampleTask ''bbbbbbbb-0002'' high (Some ''2025-02-01'') in_progress None]
   \<and> filter (\<lambda>r. task_id r = ''aaaaaaaa-0001'')
       (sqlite (db_saveTasks
          \<lparr>tasks = [exampleTask ''bbbbbbbb-0002'' high (Some ''2025-02-01'') in_progress None,
                    (exampleTask ''cccccccc-0003'' low None pending None)\<lparr>description := Some ''''\<rparr>],
           lastUpdated = ''2025-01-01T09:00:00.000Z''\<rparr>
          \<lparr>jsonFile = Absent,
           sqlite = [exampleTask ''aaaaaaaa-0001'' medium None pending None,
                     exampleTask ''bbbbbbbb-0002'' medium None pending None],
           stderr = []\<rparr>))
     = [exampleTask ''aaaaaaaa-0001'' medium None pending None]"
proof -
  let ?storage = "\<lparr>tasks = [exampleTask ''bbbbbbbb-0002'' high (Some ''2025-02-01'') in_progress None,
                (exampleTask ''cccccccc-0003'' low None pending None)\<lparr>description := Some ''''\<rparr>],
       lastUpdated = ''2025-01-01T09:00:00.000Z''\<rparr>"
  let ?w = "\<lparr>jsonFile = Absent,
       sqlite = [exampleTask ''aaaaaaaa-0001'' medium None pending None,
                 exampleTask ''bbbbbbbb-0002'' medium None pending None],
       stderr = []\<rparr>"
  have absent: "''aaaaaaaa-0001'' \<notin> task_id ` set (tasks ?storage)"
    by (simp add: exampleTask_def)
  have run: "sqlite (db_saveTasks ?storage ?w)
     = [exampleTask ''aaaaaaaa-0001'' medium None pending None,
        exampleTask ''bbbbbbbb-0002'' high (Some ''2025-02-01'') in_progress None,
        exampleTask ''cccccccc-0003'' low None pending None]"
    by (simp add: db_saveTasks_def insertOrReplace_def toRow_def orNull_def exampleTask_def)
  have given: "exampleTask ''bbbbbbbb-0002'' high (Some ''2025-02-01'') in_progress None
      \<in> set (tasks ?storage)"
    by simp
  show ?thesis
    using db_saveTasks_upserts_keeps_others [of ?storage ?w, THEN conjunct1, THEN spec,
        THEN mp, OF absent]
      db_saveTasks_upserts_keeps_others [of ?storage ?w, THEN conjunct2, THEN conjunct1,
        THEN bspec, OF given] run
    by (simp add: exampleTask_def)
qed

section \<open>Backend used by the operations\<close>

text \<open>
  C2. With \<open>STORAGE_TYPE\<close> set to \<open>database\<close> the router selects the indexed-table backend,
  but \<open>createTask\<close> still writes the new task to the snapshot document and leaves the table
  empty, and a read through the router afterwards does not see the task: the operations
  of \<open>tools.ts\<close> do not go through the router.
\<close>

theorem operations_bypass_storage_router:
  "storageModule exampleRuntime (Some ''database'') = storage_db_js
   \<and> snd (createTask exampleRuntime 1736935200000 ''3f2a9c1e-0000-4000-8000-000000000001''
            [''title'' \<mapsto> Str ''Write report'']
            \<lparr>jsonFile = Absent, sqlite = [], stderr = []\<rparr>)
     = \<lparr>jsonFile = Stored
          \<lparr>tasks = [\<lparr>task_id = ''3f2a9c1e-0000-4000-8000-000000000001'',
                     title = ''Write report'', description = None, priority = medium,
                     category = None, dueDate = None, status = pending,
                     createdAt = ''2025-01-15T10:00:00.000Z'', completedAt = None\<rparr>],
           lastUpdated = ''2025-01-15T10:00:00.000Z''\<rparr>,
        sqlite = [], stderr = []\<rparr>
   \<and> fst (router_loadTasks exampleRuntime (Some ''database'') 1737540000000
        (snd (createTask exampleRuntime 1736935200000 ''3f2a9c1e-0000-4000-8000-000000000001''
            [''title'' \<mapsto> Str ''Write report'']
            \<lparr>jsonFile = Absent, sqlite = [], stderr = []\<rparr>)))
     = Inr \<lparr>tasks = [], lastUpdated = ''2025-01-22T10:00:00.000Z''\<rparr>"
  by (simp add: storageModule_def STORAGE_TYPE_def orElse_def router_loadTasks_def
      db_loadTasks_def createTask_def CreateTaskSchema_def zStringMin_def zOptional_def
      zString_def zDefault_def zEnum_def zStringDate_def priorities_def andAlso_def
      loadTasks_cases saveTasks_def Let_def exampleRuntime_def exampleClock_def asciiLower_def)

section \<open>Order of the listing\<close>

text \<open>
  C5 (amended). For a collection whose due dates have the form \<open>YYYY-MM-DD\<close>, on a runtime
  whose \<open>localeCompare\<close> orders strings of that form as their code units do: when the
  filters leave a task, the list operation shows a permutation of the filtered tasks that
  is sorted ascending by priority rank (high 0, medium 1, low 2), ties broken by due date
  ascending in lexicographic order, a task lacking a due date being treated as having the
  sentinel date \<open>9999-99-99\<close>. Such a task is therefore never listed before a task of equal
  priority whose due date is lexicographically before \<open>9999-99-99\<close>.
\<close>

theorem listTasks_sorted:
  assumes "ListTasksSchema args = Inr validated"
    and "loadTasks rt now w = (Inr storage, w1)"
    and "applyFilters rt validated (tasks storage) \<noteq> []"
    and "\<forall>t\<in>set (tasks storage). validDueDate t"
    and "\<forall>a b. matchesDate a \<and> matchesDate b \<longrightarrow> (localeCompare rt a b \<le> 0) = strLeq a b"
  shows "\<exists>listed. fst (listTasks rt now args w) = Inr (formatListing rt listed (tasks storage))
     \<and> mset listed = mset (applyFilters rt validated (tasks storage))
     \<and> sorted_wrt listOrder listed
     \<and> (\<forall>i j d. i < j \<and> j < length listed
           \<and> priority (listed ! i) = priority (listed ! j)
           \<and> dueDate (listed ! i) = None \<and> dueDate (listed ! j) = Some d \<longrightarrow>
           \<not> strLess d ''9999-99-99'')"
proof -
  let ?fs = "applyFilters rt validated (tasks storage)"
  let ?listed = "sortBy (compareTasks rt) ?fs"
  let ?S = "{t. validDueDate t}"
  have sub: "set ?fs \<subseteq> ?S" using set_applyFilters [of rt validated "tasks storage"] assms(4) by auto
  have sorted: "sorted_wrt listOrder ?listed"
  proof (rule sorted_sortBy [where S = ?S])
    show "(compareTasks rt a b \<le> 0) = listOrder a b" if "a \<in> ?S" "b \<in> ?S" for a b
      using compareTasks_listOrder [OF assms(5)] that by simp
    show "listOrder a b \<or> listOrder b a" for a b by (rule listOrder_total)
    show "listOrder a b \<Longrightarrow> listOrder b c \<Longrightarrow> listOrder a c" for a b c by (rule listOrder_trans)
    show "set ?fs \<subseteq> ?S" by (rule sub)
  qed
  have last: "\<not> strLess d ''9999-99-99''"
    if "i < j" "j < length ?listed" "priority (?listed ! i) = priority (?listed ! j)"
      "dueDate (?listed ! i) = None" "dueDate (?listed ! j) = Some d" for i j d
  proof -
    have "listOrder (?listed ! i) (?listed ! j)"
      using sorted that(1,2) by (simp add: sorted_wrt_iff_nth_less)
    then have le: "strLeq ''9999-99-99'' (orElse (Some d) ''9999-99-99'')"
      using that(3,4,5) by (simp add: listOrder_def orElse_def)
    have "?listed ! j \<in> set ?fs" using that(2) set_sortBy [of "compareTasks rt" ?fs] nth_mem by blast
    then have "validDueDate (?listed ! j)" using sub by auto
    then have "d \<noteq> []" using that(5) by (auto simp: validDueDate_def matchesDate_nonempty)
    then show ?thesis using le by (simp add: orElse_def strLeq_def)
  qed
  have "fst (listTasks rt now args w) = Inr (formatListing rt ?listed (tasks storage))"
    using listTasks_found [OF assms(1,2,3)] by simp
  moreover have "mset ?listed = mset ?fs" by (rule mset_sortBy)
  ultimately show ?thesis using sorted last by blast
qed

theorem listTasks_sorted_witness:
  "fst (listTasks exampleRuntime 1736935200000 Map.empty
          (exampleWorld
             [exampleTask ''aaaaaaaa-0001'' low (Some ''2025-01-01'') pending None,
              exampleTask ''bbbbbbbb-0002'' high None pending None,
              exampleTask ''cccccccc-0003'' medium (Some ''2025-03-01'') pending None,
              exampleTask ''dddddddd-0004'' medium None pending None,
              exampleTask ''eeeeeeee-0005'' medium (Some ''2025-01-01'') pending None]))
     = Inr (formatListing exampleRuntime
             [exampleTask ''bbbbbbbb-0002'' high None pending None,
              exampleTask ''eeeeeeee-0005'' medium (Some ''2025-01-01'') pending None,
              exampleTask ''cccccccc-0003'' medium (Some ''2025-03-01'') pending None,
              exampleTask ''dddddddd-0004'' medium None pending None,
              exampleTask ''aaaaaaaa-0001'' low (Some ''2025-01-01'') pending None]
             [exampleTask ''aaaaaaaa-0001'' low (Some ''2025-01-01'') pending None,
              exampleTask ''bbbbbbbb-0002'' high None pending None,
              exampleTask ''cccccccc-0003'' medium (Some ''2025-03-01'') pending None,
              exampleTask ''dddddddd-0004'' medium None pending None,
              exampleTask ''eeeeeeee-0005'' medium (Some ''2025-01-01'') pending None])
   \<and> (\<exists>listed.
        fst (listTasks exampleRuntime 1736935200000 Map.empty
          (exampleWorld
             [exampleTask ''aaaaaaaa-0001'' low (Some ''2025-01-01'') pending None,
              exampleTask ''bbbbbbbb-0002'' high None pending None,
              exampleTask ''cccccccc-0003'' medium (Some ''2025-03-01'') pending None,
              exampleTask ''dddddddd-0004'' medium None pending None,
              exampleTask ''eeeeeeee-0005'' medium (Some ''2025-01-01'') pending None]))
          = Inr (formatListing exampleRuntime listed
             [exampleTask ''aaaaaaaa-0001'' low (Some ''2025-01-01'') pending None,
              exampleTask ''bbbbbbbb-0002'' high None pending None,
              exampleTask ''cccccccc-0003'' medium (Some ''2025-03-01'') pending None,
              exampleTask ''dddddddd-0004'' medium None pending None,
              exampleTask ''eeeeeeee-0005'' medium (Some ''2025-01-01'') pending None])
        \<and> mset listed = mset
             [exampleTask ''aaaaaaaa-0001'' low (Some ''2025-01-01'') pending None,
              exampleTask ''bbbbbbbb-0002'' high None pending None,
              exampleTask ''cccccccc-0003'' medium (Some ''2025-03-01'') pending None,
              exampleTask ''dddddddd-0004'' medium None pending None,
              exampleTask ''eeeeeeee-0005'' medium (Some ''2025-01-01'') pending None]
        \<and> sorted_wrt listOrder listed)"
proof -
  let ?ts = "[exampleTask ''aaaaaaaa-0001'' low (Some ''2025-01-01'') pending None,
              exampleTask ''bbbbbbbb-0002'' high None pending None,
              exampleTask ''cccccccc-0003'' medium (Some ''2025-03-01'') pending None,
              exampleTask ''dddddddd-0004'' medium None pending None,
              exampleTask ''eeeeeeee-0005'' medium (Some ''2025-01-01'') pending None]"
  let ?st = "\<lparr>tasks = ?ts, lastUpdated = ''2025-01-01T09:00:00.000Z''\<rparr>"
  let ?all = "\<lparr>list_status = All, list_priority = All, list_category = None\<rparr>"
  have load: "loadTasks exampleRuntime 1736935200000 (exampleWorld ?ts) = (Inr ?st, exampleWorld ?ts)"
    by (simp add: loadTasks_cases exampleWorld_def)
  have filters: "applyFilters exampleRuntime ?all (tasks ?st) = ?ts"
    by (simp add: applyFilters_def truthy_def)
  have nonempty: "applyFilters exampleRuntime ?all (tasks ?st) \<noteq> []"
    unfolding filters by simp
  have dates: "\<forall>t\<in>set (tasks ?st). validDueDate t"
    by (simp add: validDueDate_def exampleTask_def matchesDate_def isDigit_def)
  have collation: "\<forall>a b. matchesDate a \<and> matchesDate b \<longrightarrow>
      (localeCompare exampleRuntime a b \<le> 0) = strLeq a b"
    by (simp add: exampleRuntime_def codeUnitCompare_le)
  have run: "sortBy (compareTasks exampleRuntime) ?ts =
             [exampleTask ''bbbbbbbb-0002'' high None pending None,
              exampleTask ''eeeeeeee-0005'' medium (Some ''2025-01-01'') pending None,
              exampleTask ''cccccccc-0003'' medium (Some ''2025-03-01'') pending None,
              exampleTask ''dddddddd-0004'' medium None pending None,
              exampleTask ''aaaaaaaa-0001'' low (Some ''2025-01-01'') pending None]"
    by (simp add: compareTasks_def orElse_def exampleTask_def exampleRuntime_def
        codeUnitCompare_def Let_def)
  have shown: "fst (listTasks exampleRuntime 1736935200000 Map.empty (exampleWorld ?ts))
      = Inr (formatListing exampleRuntime (sortBy (compareTasks exampleRuntime) ?ts) ?ts)"
    using listTasks_found [OF ListTasksSchema_empty load nonempty] filters by simp
  show ?thesis
    using listTasks_sorted [OF ListTasksSchema_empty load nonempty dates collation] shown run filters
    by auto
qed

text \<open>
  A task whose due date is \<open>9999-99-99\<close>, which the schemas accept, compares equal to a task
  of the same priority without due date, and the sort keeps the two in the order of the
  collection: here the task lacking a due date is listed before a task of equal priority
  that has one.
\<close>

theorem listTasks_sentinel_tie_counterexample:
  "fst (listTasks exampleRuntime 1736935200000 Map.empty
          (exampleWorld
             [exampleTask ''aaaaaaaa-0001'' medium None pending None,
              exampleTask ''bbbbbbbb-0002'' medium (Some ''9999-99-99'') pending None]))
     = Inr (formatListing exampleRuntime
             [exampleTask ''aaaaaaaa-0001'' medium None pending None,
              exampleTask ''bbbbbbbb-0002'' medium (Some ''9999-99-99'') pending None]
             [exampleTask ''aaaaaaaa-0001'' medium None pending None,
              exampleTask ''bbbbbbbb-0002'' medium (Some ''9999-99-99'') pending None])
   \<and> sortBy (compareTasks exampleRuntime)
        [exampleTask ''aaaaaaaa-0001'' medium None pending None,
         exampleTask ''bbbbbbbb-0002'' medium (Some ''9999-99-99'') pending None]
     = [exampleTask ''aaaaaaaa-0001'' medium None pending None,
        exampleTask ''bbbbbbbb-0002'' medium (Some ''9999-99-99'') pending None]
   \<and> dueDate (exampleTask ''aaaaaaaa-0001'' medium None pending None) = None
   \<and> dueDate (exampleTask ''bbbbbbbb-0002'' medium (Some ''9999-99-99'') pending None)
       = Some ''9999-99-99''
   \<and> priority (exampleTask ''aaaaaaaa-0001'' medium None pending None)
       = priority (exampleTask ''bbbbbbbb-0002'' medium (Some ''9999-99-99'') pending None)
   \<and> matchesDate ''9999-99-99''"
  by (simp add: listTasks_def ListTasksSchema_empty loadTasks_cases applyFilters_def truthy_def
      compareTasks_def orElse_def Let_def exampleWorld_def exampleTask_def exampleRuntime_def
      codeUnitCompare_def matchesDate_def isDigit_def)

section \<open>Statistics\<close>

text \<open>
  C9. \<open>getTaskStats\<close> answers an empty collection with the "no tasks yet" message and
  nothing else; otherwise it renders statistics \<open>st\<close> computed over the whole loaded
  collection (an array, so of fewer than \<open>2 ^ 32\<close> tasks): the total is its length; the
  completion rate is a numeral with one digit after the point whose value is within
  \<open>0.05\<close> of the exact percentage \<open>100 * completed / total\<close>; the counts per status and per
  priority are the numbers of tasks with that status or priority; the categories are
  exactly the non-empty category names carried by at least one task, each once with the
  number of its tasks, and they are rendered as a permutation sorted by \<open>localeCompare\<close>
  (for a runtime whose \<open>localeCompare\<close> is a total preorder); the overdue count is the
  number of tasks not completed whose due date is lexicographically strictly before
  today, the date part of the ISO timestamp of the current instant; the due-soon count is
  the number of tasks not completed whose due date lies from today to the date of the
  instant seven days later, both included. An empty string as due date or category counts
  as none.
\<close>

theorem getTaskStats_over_collection:
  assumes "loadTasks rt now w = (Inr storage, w1)"
    and "st = computeStats rt now (tasks storage)"
    and "length (tasks storage) < 2 ^ 32"
    and "toISOString rt now = today @ CHR ''T'' # time"
    and "CHR ''T'' \<notin> set today"
    and "toISOString rt (now + 604800000) = weekLater @ CHR ''T'' # time'"
    and "CHR ''T'' \<notin> set weekLater"
    and "\<forall>a b. localeCompare rt a b \<le> 0 \<or> localeCompare rt b a \<le> 0"
    and "\<forall>a b c. localeCompare rt a b \<le> 0 \<and> localeCompare rt b c \<le> 0 \<longrightarrow> localeCompare rt a c \<le> 0"
  shows "getTaskStats rt now w =
       (Inr (if tasks storage = [] then ''No tasks yet. Create your first task to get started!''
             else formatStats rt st), w1)
     \<and> total st = length (tasks storage)
     \<and> (tasks storage \<noteq> [] \<longrightarrow>
          (\<exists>whole frac.
             completionRate st = whole @ ''.'' @ [frac]
             \<and> whole \<noteq> [] \<and> set whole \<subseteq> set ''0123456789'' \<and> frac \<in> set ''0123456789''
             \<and> \<bar>of_nat (10 * decimalValue whole + digitValue frac) / 10
                  - 100 * of_nat (length (filter (\<lambda>t. status t = completed) (tasks storage)))
                      / of_nat (length (tasks storage))\<bar> \<le> (1 / 20 :: rat)))
     \<and> byStatus_pending st = length (filter (\<lambda>t. status t = pending) (tasks storage))
     \<and> byStatus_in_progress st = length (filter (\<lambda>t. status t = in_progress) (tasks storage))
     \<and> byStatus_completed st = length (filter (\<lambda>t. status t = completed) (tasks storage))
     \<and> byPriority_high st = length (filter (\<lambda>t. priority t = high) (tasks storage))
     \<and> byPriority_medium st = length (filter (\<lambda>t. priority t = medium) (tasks storage))
     \<and> byPriority_low st = length (filter (\<lambda>t. priority t = low) (tasks storage))
     \<and> distinct (map fst (categories st))
     \<and> (\<forall>c n. ((c, n) \<in> set (categories st))
           = (c \<noteq> [] \<and> 0 < n
              \<and> n = length (filter (\<lambda>t. category t = Some c) (tasks storage))))
     \<and> mset (sortedCategories rt (categories st)) = mset (categories st)
     \<and> sorted_wrt (\<lambda>a b. localeCompare rt (fst a) (fst b) \<le> 0)
         (sortedCategories rt (categories st))
     \<and> overdue st =
         length (filter (\<lambda>t. status t \<noteq> completed
                   \<and> (\<exists>d. dueDate t = Some d \<and> d \<noteq> []
                          \<and> (d, today) \<in> lexord codeUnitOrder)) (tasks storage))
     \<and> dueSoon st =
         length (filter (\<lambda>t. status t \<noteq> completed
                   \<and> (\<exists>d. dueDate t = Some d \<and> d \<noteq> []
                          \<and> (d = today \<or> (today, d) \<in> lexord codeUnitOrder)
                          \<and> (d = weekLater \<or> (d, weekLater) \<in> lexord codeUnitOrder)))
           (tasks storage))"
proof -
  let ?ts = "tasks storage"
  have day: "beforeT (toISOString rt now) = today"
    unfolding assms(4) using assms(5) by (rule beforeT_date)
  have week: "beforeT (toISOString rt (now + 7 * 24 * 60 * 60 * 1000)) = weekLater"
    using beforeT_date [OF assms(7), of time'] assms(6) by simp
  have run: "getTaskStats rt now w =
       (Inr (if ?ts = [] then ''No tasks yet. Create your first task to get started!''
             else formatStats rt st), w1)"
    using assms(1,2) by (simp add: getTaskStats_def)
  have counts: "total st = length ?ts"
    "byStatus_pending st = length (filter (\<lambda>t. status t = pending) ?ts)"
    "byStatus_in_progress st = length (filter (\<lambda>t. status t = in_progress) ?ts)"
    "byStatus_completed st = length (filter (\<lambda>t. status t = completed) ?ts)"
    "byPriority_high st = length (filter (\<lambda>t. priority t = high) ?ts)"
    "byPriority_medium st = length (filter (\<lambda>t. priority t = medium) ?ts)"
    "byPriority_low st = length (filter (\<lambda>t. priority t = low) ?ts)"
    unfolding assms(2) by (simp_all add: computeStats_def Let_def countStatus_def countPriority_def)
  have rate: "\<exists>whole frac.
             completionRate st = whole @ ''.'' @ [frac]
             \<and> whole \<noteq> [] \<and> set whole \<subseteq> set ''0123456789'' \<and> frac \<in> set ''0123456789''
             \<and> \<bar>of_nat (10 * decimalValue whole + digitValue frac) / 10
                  - 100 * of_nat (length (filter (\<lambda>t. status t = completed) ?ts))
                      / of_nat (length ?ts)\<bar> \<le> (1 / 20 :: rat)"
    if "?ts \<noteq> []"
  proof -
    have pos: "0 < length ?ts" using that by simp
    have le: "length (filter (\<lambda>t. status t = completed) ?ts) \<le> length ?ts" by simp
    have "completionRate st =
        toFixed 1 (numTimes (numDivide (of_nat (length (filter (\<lambda>t. status t = completed) ?ts)))
                     (of_nat (length ?ts))) 100)"
      unfolding assms(2) using pos by (simp add: computeStats_def Let_def countStatus_def)
    then show ?thesis using rate_rendered [OF pos le assms(3)] by simp
  qed
  have cats: "categories st = countCategories [] ?ts"
    unfolding assms(2) by (simp add: computeStats_def Let_def)
  have keys: "distinct (map fst (categories st))"
    unfolding cats by (rule countCategories_keys) simp
  have counted: "\<forall>c n. ((c, n) \<in> set (categories st))
           = (c \<noteq> [] \<and> 0 < n \<and> n = length (filter (\<lambda>t. category t = Some c) ?ts))"
    unfolding cats using categories_counted by blast
  have perm: "mset (sortedCategories rt (categories st)) = mset (categories st)"
    by (simp add: sortedCategories_def mset_sortBy)
  have sorted: "sorted_wrt (\<lambda>a b. localeCompare rt (fst a) (fst b) \<le> 0)
         (sortedCategories rt (categories st))"
    using sorted_sortedCategories [OF assms(8,9)] .
  have late: "overdue st =
         length (filter (\<lambda>t. status t \<noteq> completed
                   \<and> (\<exists>d. dueDate t = Some d \<and> d \<noteq> []
                          \<and> (d, today) \<in> lexord codeUnitOrder)) ?ts)"
    unfolding assms(2) computeStats_def Let_def day week
    by (simp add: due_filters strLess_lexord)
  have soon: "dueSoon st =
         length (filter (\<lambda>t. status t \<noteq> completed
                   \<and> (\<exists>d. dueDate t = Some d \<and> d \<noteq> []
                          \<and> (d = today \<or> (today, d) \<in> lexord codeUnitOrder)
                          \<and> (d = weekLater \<or> (d, weekLater) \<in> lexord codeUnitOrder))) ?ts)"
    unfolding assms(2) computeStats_def Let_def day week
    by (simp add: due_filters strGeq_lexord strLeq_lexord)
  show ?thesis
    using run counts rate keys counted perm sorted late soon by blast
qed

theorem getTaskStats_over_collection_witness:
  "getTaskStats exampleRuntime 1736935200000
      (exampleWorld
         [(exampleTask ''aaaaaaaa-0001'' high (Some ''2020-01-01'') pending None)
            \<lparr>category := Some ''work''\<rparr>,
          (exampleTask ''bbbbbbbb-0002'' medium (Some ''2020-01-01'') completed
             (Some ''2025-01-02T08:00:00.000Z''))\<lparr>category := Some ''work''\<rparr>,
          (exampleTask ''cccccccc-0003'' medium (Some ''2025-01-20'') in_progress None)
            \<lparr>category := Some ''home''\<rparr>,
          exampleTask ''dddddddd-0004'' low (Some ''2025-01-22'') pending None,
          (exampleTask ''eeeeeeee-0005'' low (Some ''2025-01-23'') pending None)
            \<lparr>category := Some ''errands''\<rparr>])
     = (Inr (formatStats exampleRuntime
               \<lparr>total = 5, byStatus_pending = 3, byStatus_in_progress = 1, byStatus_completed = 1,
                byPriority_high = 1, byPriority_medium = 2, byPriority_low = 2,
                categories = [(''work'', 2), (''home'', 1), (''errands'', 1)],
                overdue = 1, dueSoon = 2, completionRate = ''20.0''\<rparr>),
        exampleWorld
         [(exampleTask ''aaaaaaaa-0001'' high (Some ''2020-01-01'') pending None)
            \<lparr>category := Some ''work''\<rparr>,
          (exampleTask ''bbbbbbbb-0002'' medium (Some ''2020-01-01'') completed
             (Some ''2025-01-02T08:00:00.000Z''))\<lparr>category := Some ''work''\<rparr>,
          (exampleTask ''cccccccc-0003'' medium (Some ''2025-01-20'') in_progress None)
            \<lparr>category := Some ''home''\<rparr>,
          exampleTask ''dddddddd-0004'' low (Some ''2025-01-22'') pending None,
          (exampleTask ''eeeeeeee-0005'' low (Some ''2025-01-23'') pending None)
            \<lparr>category := Some ''errands''\<rparr>])
   \<and> sortedCategories exampleRuntime [(''work'', 2), (''home'', 1), (''errands'', 1)]
       = [(''errands'', 1), (''home'', 1), (''work'', 2)]
   \<and> getTaskStats exampleRuntime 1736935200000 (exampleWorld [])
     = (Inr ''No tasks yet. Create your first task to get started!'', exampleWorld [])
   \<and> completionRate (computeStats exampleRuntime 1736935200000
         (replicate 23 (exampleTask ''aaaaaaaa-0001'' medium None completed
                          (Some ''2025-01-02T08:00:00.000Z''))
          @ replicate 57 (exampleTask ''bbbbbbbb-0002'' medium None pending None)))
     = ''28.7''"
proof -
  let ?rt = exampleRuntime and ?now = "1736935200000 :: int"
  let ?ts = "[(exampleTask ''aaaaaaaa-0001'' high (Some ''2020-01-01'') pending None)
            \<lparr>category := Some ''work''\<rparr>,
          (exampleTask ''bbbbbbbb-0002'' medium (Some ''2020-01-01'') completed
             (Some ''2025-01-02T08:00:00.000Z''))\<lparr>category := Some ''work''\<rparr>,
          (exampleTask ''cccccccc-0003'' medium (Some ''2025-01-20'') in_progress None)
            \<lparr>category := Some ''home''\<rparr>,
          exampleTask ''dddddddd-0004'' low (Some ''2025-01-22'') pending None,
          (exampleTask ''eeeeeeee-0005'' low (Some ''2025-01-23'') pending None)
            \<lparr>category := Some ''errands''\<rparr>]"
  let ?st = "\<lparr>tasks = ?ts, lastUpdated = ''2025-01-01T09:00:00.000Z''\<rparr>"
  have load: "loadTasks ?rt ?now (exampleWorld ts)
      = (Inr \<lparr>tasks = ts, lastUpdated = ''2025-01-01T09:00:00.000Z''\<rparr>, exampleWorld ts)" for ts
    by (simp add: loadTasks_cases exampleWorld_def)
  have total: "\<forall>a b. localeCompare ?rt a b \<le> 0 \<or> localeCompare ?rt b a \<le> 0"
    using strLeq_total by (simp add: exampleRuntime_def codeUnitCompare_le)
  have trans: "\<forall>a b c. localeCompare ?rt a b \<le> 0 \<and> localeCompare ?rt b c \<le> 0
      \<longrightarrow> localeCompare ?rt a c \<le> 0"
    using strLeq_trans by (auto simp: exampleRuntime_def codeUnitCompare_le)
  have day: "toISOString ?rt ?now = ''2025-01-15'' @ CHR ''T'' # ''10:00:00.000Z''"
    and week: "toISOString ?rt (?now + 604800000) = ''2025-01-22'' @ CHR ''T'' # ''10:00:00.000Z''"
    by (simp_all add: exampleRuntime_def exampleClock_def)
  have noT: "CHR ''T'' \<notin> set ''2025-01-15''" "CHR ''T'' \<notin> set ''2025-01-22''"
    by simp_all
  have small: "length (tasks \<lparr>tasks = ts, lastUpdated = l\<rparr>) < 2 ^ 32" if "length ts < 10" for ts l
    using that by simp
  have today: "beforeT (toISOString ?rt ?now) = ''2025-01-15''"
    and later: "beforeT (toISOString ?rt (?now + 7 * 24 * 60 * 60 * 1000)) = ''2025-01-22''"
    by (simp_all add: beforeT_def exampleRuntime_def exampleClock_def)
  have cats: "countCategories [] ?ts = [(''work'', 2), (''home'', 1), (''errands'', 1)]"
    by (simp add: exampleTask_def mapSet_def mapGet_def)
  have cnt: "countStatus completed ?ts = 1" and len: "length ?ts = 5"
    by (simp_all add: countStatus_def exampleTask_def)
  have stats: "computeStats ?rt ?now ?ts =
      \<lparr>total = 5, byStatus_pending = 3, byStatus_in_progress = 1, byStatus_completed = 1,
       byPriority_high = 1, byPriority_medium = 2, byPriority_low = 2,
       categories = [(''work'', 2), (''home'', 1), (''errands'', 1)],
       overdue = 1, dueSoon = 2, completionRate = ''20.0''\<rparr>"
    unfolding computeStats_def today later cats Let_def cnt len
    by (simp add: countStatus_def countPriority_def exampleTask_def strGeq_def strLeq_def rate5 [unfolded One_nat_def])
  have stats2: "\<lparr>total = 5, byStatus_pending = 3, byStatus_in_progress = 1, byStatus_completed = 1,
       byPriority_high = 1, byPriority_medium = 2, byPriority_low = 2,
       categories = [(''work'', 2), (''home'', 1), (''errands'', 1)],
       overdue = 1, dueSoon = 2, completionRate = ''20.0''\<rparr>
      = computeStats ?rt ?now (tasks ?st)"
    using stats by simp
  have order: "sortedCategories ?rt [(''work'', 2), (''home'', 1), (''errands'', 1)]
       = [(''errands'', 1), (''home'', 1), (''work'', 2)]"
    by (simp add: sortedCategories_def exampleRuntime_def codeUnitCompare_def)
  have rate: "completionRate (computeStats ?rt ?now
         (replicate 23 (exampleTask ''aaaaaaaa-0001'' medium None completed
                          (Some ''2025-01-02T08:00:00.000Z''))
          @ replicate 57 (exampleTask ''bbbbbbbb-0002'' medium None pending None)))
     = ''28.7''"
    by (simp add: computeStats_def Let_def countStatus_def exampleTask_def rate80 [unfolded One_nat_def])
  note full = getTaskStats_over_collection [OF load [of ?ts] stats2 small day noT(1) week noT(2)
      total trans, THEN conjunct1]
  note none = getTaskStats_over_collection [OF load [of "[]"] refl small day noT(1) week noT(2)
      total trans, THEN conjunct1]
  show ?thesis using full none order rate by simp
qed

end
